theory Spec2Isabelle
  imports Main
begin

section \<open>Python values and exceptions\<close>

text \<open>
  The controller and the crawler are Python. An attribute that may hold \<open>None\<close> is an
  \<open>option\<close>; a raised exception is the left injection of a sum. \<open>Exception msg\<close> is
  \<^verbatim>\<open>raise Exception(msg)\<close>; \<open>Wrapped prefix cause\<close> is an exception whose message is
  \<open>prefix\<close> followed by \<^verbatim>\<open>traceback.format_exc()\<close> of \<open>cause\<close> (the traceback text
  itself is not modelled); \<open>IntegrityError\<close> is what the storage backend raises when it
  refuses a commit.
\<close>

datatype error =
    TypeError
  | AttributeError string
  | IntegrityError
  | Exception string
  | Wrapped string error

text \<open>
  Python 3 ordering of two values that are integers or \<open>None\<close>: comparing with
  \<open>None\<close> raises \<open>TypeError\<close>.
\<close>

fun py_lt :: "int option \<Rightarrow> int option \<Rightarrow> error + bool" where
  "py_lt (Some a) (Some b) = Inr (a < b)"
| "py_lt _ _ = Inl TypeError"

fun py_gt :: "int option \<Rightarrow> int option \<Rightarrow> error + bool" where
  "py_gt (Some a) (Some b) = Inr (a > b)"
| "py_gt _ _ = Inl TypeError"

fun py_le :: "int option \<Rightarrow> int option \<Rightarrow> error + bool" where
  "py_le (Some a) (Some b) = Inr (a \<le> b)"
| "py_le _ _ = Inl TypeError"

section \<open>Temporal range tracking\<close>

text \<open>
  \<^verbatim>\<open>models.TemporalEntity\<close>: the two nullable integer columns every temporally scoped
  entity inherits. Concrete entities extend this record.
\<close>

record temporal_entity =
  first_year :: "int option"
  last_year :: "int option"

definition has_time_range :: "'a temporal_entity_scheme \<Rightarrow> bool" where
  "has_time_range e = (\<not> (first_year e = None \<or> last_year e = None))"

text \<open>
  The body of \<^verbatim>\<open>add_year\<close> after the assignments of the unset bounds, shared by the
  persisted entity and the candidate: \<^verbatim>\<open>if first_year > year: ... elif last_year < year: ...\<close>
\<close>

definition widen :: "int option \<Rightarrow> 'a temporal_entity_scheme \<Rightarrow> error + 'a temporal_entity_scheme" where
  "widen year e =
     (case py_gt (first_year e) year of
        Inl err \<Rightarrow> Inl err
      | Inr True \<Rightarrow> Inr (e\<lparr>first_year := year\<rparr>)
      | Inr False \<Rightarrow>
          (case py_lt (last_year e) year of
             Inl err \<Rightarrow> Inl err
           | Inr True \<Rightarrow> Inr (e\<lparr>last_year := year\<rparr>)
           | Inr False \<Rightarrow> Inr e))"

definition fill_unset :: "int option \<Rightarrow> 'a temporal_entity_scheme \<Rightarrow> 'a temporal_entity_scheme" where
  "fill_unset year e =
     (let e1 = (if first_year e = None then e\<lparr>first_year := year\<rparr> else e)
      in (if last_year e1 = None then e1\<lparr>last_year := year\<rparr> else e1))"

text \<open>\<^verbatim>\<open>models.TemporalEntity.add_year\<close>: returns at once when the year is \<open>None\<close>.\<close>

definition add_year :: "int option \<Rightarrow> 'a temporal_entity_scheme \<Rightarrow> error + 'a temporal_entity_scheme" where
  "add_year year e = (if year = None then Inr e else widen year (fill_unset year e))"

text \<open>\<^verbatim>\<open>models.TemporalEntity.contains\<close>: a chained comparison, left to right.\<close>

definition contains :: "'a temporal_entity_scheme \<Rightarrow> int option \<Rightarrow> error + bool" where
  "contains e year =
     (case py_le (first_year e) year of
        Inl err \<Rightarrow> Inl err
      | Inr False \<Rightarrow> Inr False
      | Inr True \<Rightarrow> py_le year (last_year e))"

text \<open>
  \<^verbatim>\<open>candidates.TemporalEntity\<close> carries an identifier as well, and its \<^verbatim>\<open>add_year\<close> has
  no guard for \<open>None\<close>.
\<close>

record candidate_entity = temporal_entity +
  cand_id :: int

definition cand_add_year :: "int option \<Rightarrow> 'a candidate_entity_scheme \<Rightarrow> error + 'a candidate_entity_scheme" where
  "cand_add_year year e = widen year (fill_unset year e)"

text \<open>A range is well formed when both bounds are unset, or both are set and ordered.\<close>

definition range_ok :: "'a temporal_entity_scheme \<Rightarrow> bool" where
  "range_ok e =
     (case (first_year e, last_year e) of
        (None, None) \<Rightarrow> True
      | (Some a, Some b) \<Rightarrow> a \<le> b
      | _ \<Rightarrow> False)"

section \<open>The worker loop\<close>

text \<open>
  \<^verbatim>\<open>PageCrawler.run\<close>. The crawl function is supplied by the caller and acts on the
  outside world, so its outcome is a parameter: \<open>crawl w n\<close> tells whether the call for work
  unit \<open>w\<close> succeeds when \<open>n\<close> calls for it have failed before. What the worker does is
  recorded in a trace: the work units it called the crawl function for, the rollbacks of
  its store session, and the seconds of every \<^verbatim>\<open>sleep\<close>.
\<close>

record 'w trace =
  calls :: "'w list"
  rollbacks :: nat
  sleeps :: "nat list"

text \<open>
  The inner \<^verbatim>\<open>while True\<close> for one work unit, entered with \<open>exception_count\<close>. It returns
  the counter after the \<^verbatim>\<open>break\<close>, or the exception raised when the counter exceeds 10.
\<close>

function retry_loop ::
  "('w \<Rightarrow> nat \<Rightarrow> bool) \<Rightarrow> 'w \<Rightarrow> nat \<Rightarrow> 'w trace \<Rightarrow> (error \<times> 'w trace) + (nat \<times> 'w trace)" where
  "retry_loop crawl w exception_count tr =
     (let tr1 = tr\<lparr>calls := calls tr @ [w]\<rparr>
      in if crawl w exception_count then Inr (0, tr1)
         else
           (let tr2 = tr1\<lparr>rollbacks := rollbacks tr1 + 1\<rparr>;
                exception_count' = exception_count + 1
            in if exception_count' > 10
               then Inl (Exception ''Thread {} failed for more than 10 times.'', tr2)
               else retry_loop crawl w exception_count'
                      (tr2\<lparr>sleeps := sleeps tr2 @ [5 + min exception_count' 55]\<rparr>)))"
  by pat_completeness auto
termination
  by (relation "measure (\<lambda>(crawl, w, exception_count, tr). 11 - exception_count)") auto

declare retry_loop.simps [simp del]

text \<open>
  The outer loop over the work queue, for one worker: an empty queue ends the worker; else
  the head is taken off the queue and retried until it succeeds or the worker raises. The
  result holds the queue as the worker leaves it.
\<close>

fun run :: "('w \<Rightarrow> nat \<Rightarrow> bool) \<Rightarrow> 'w list \<Rightarrow> 'w trace \<Rightarrow> (error \<times> 'w list \<times> 'w trace) + ('w list \<times> 'w trace)" where
  "run crawl [] tr = Inr ([], tr)"
| "run crawl (work_unit # work_queue) tr =
     (case retry_loop crawl work_unit 0 tr of
        Inl (err, tr') \<Rightarrow> Inl (err, work_queue, tr')
      | Inr (exception_count, tr') \<Rightarrow> run crawl work_queue tr')"

section \<open>The store and the controller\<close>

text \<open>
  Text formatting: \<^verbatim>\<open>str\<close> of an integer, and \<^verbatim>\<open>'{}'.format\<close> of a value that may
  be \<open>None\<close>.
\<close>

definition digit_char :: "nat \<Rightarrow> char" where
  "digit_char d = ''0123456789'' ! d"

function str_nat :: "nat \<Rightarrow> string" where
  "str_nat n = (if n < 10 then [digit_char n] else str_nat (n div 10) @ [digit_char (n mod 10)])"
  by pat_completeness auto
termination
  by (relation "measure id") auto

declare str_nat.simps [simp del]

definition str_int :: "int \<Rightarrow> string" where
  "str_int i = (if i < 0 then CHR ''-'' # str_nat (nat (- i)) else str_nat (nat i))"

definition str_opt :: "string option \<Rightarrow> string" where
  "str_opt v = (case v of None \<Rightarrow> ''None'' | Some x \<Rightarrow> x)"

text \<open>
  A persisted object is a row of a table of the session, and a Python reference to it is
  the position of the row (rows of these tables are appended and updated, never removed).
  \<^verbatim>\<open>query.filter_by(...).first()\<close> is the first row that satisfies the filter. A
  relationship attribute (\<^verbatim>\<open>department\<close>, \<^verbatim>\<open>parent\<close>, \<^verbatim>\<open>building\<close>, \<^verbatim>\<open>turn\<close>, ...) holds
  the identity of the related object, an integer here.
\<close>

fun first_index :: "('a \<Rightarrow> bool) \<Rightarrow> 'a list \<Rightarrow> nat option" where
  "first_index P [] = None"
| "first_index P (x # xs) = (if P x then Some 0 else map_option Suc (first_index P xs))"

text \<open>A Python \<^verbatim>\<open>dict\<close> keeps one value per key; \<^verbatim>\<open>d[k] = v\<close> replaces or adds.\<close>

type_synonym ('k, 'v) dict = "('k \<times> 'v) list"

definition dict_set :: "'k \<Rightarrow> 'v \<Rightarrow> ('k, 'v) dict \<Rightarrow> ('k, 'v) dict" where
  "dict_set k v d = (if k \<in> fst ` set d then map (\<lambda>(k', v'). if k' = k then (k', v) else (k', v')) d else d @ [(k, v)])"

subsection \<open>Rows and candidates\<close>

text \<open>
  The fields are the attributes \<^verbatim>\<open>database.py\<close> reads and writes. Candidates are the
  classes of \<^verbatim>\<open>candidates.py\<close>, with the attributes the controller reads from them.
\<close>

record institution = temporal_entity +
  inst_id :: int
  inst_name :: "string option"
  inst_abbreviation :: "string option"

record institution_candidate = candidate_entity +
  ic_name :: "string option"
  ic_abbreviation :: "string option"

record department = temporal_entity +
  dept_id :: int
  dept_name :: "string option"
  dept_institution :: "int option"

record department_candidate = candidate_entity +
  dc_name :: "string option"
  dc_institution :: "int option"

record course = temporal_entity +
  course_internal_id :: "int option"
  course_name :: "string option"
  course_abbreviation :: "string option"
  course_degree :: "int option"
  course_institution :: "int option"

record course_candidate = candidate_entity +
  cc_name :: "string option"
  cc_abbreviation :: "string option"
  cc_degree :: "int option"
  cc_institution :: "int option"

record class_row =
  class_internal_id :: int
  class_name :: "string option"
  class_department :: int
  class_abbreviation :: "string option"
  class_ects :: "int option"

record class_candidate =
  clc_id :: int
  clc_name :: "string option"
  clc_department :: int
  clc_abbreviation :: "string option"
  clc_ects :: "int option"

record class_instance_row =
  ci_parent :: int
  ci_year :: int
  ci_period :: int


record building =
  building_id :: int
  building_name :: string

record room =
  room_id :: "int option"
  room_name :: string
  room_type :: "int option"
  room_building :: int

record room_candidate =
  rc_id :: "int option"
  rc_name :: string
  rc_type :: "int option"
  rc_building :: int

record admission =
  adm_student :: "int option"
  adm_name :: "string option"
  adm_course :: int
  adm_phase :: int
  adm_year :: int
  adm_option :: int
  adm_state :: string


record turn_instance =
  ti_id :: "int option"
  ti_turn :: int
  ti_start :: int
  ti_end :: int
  ti_room :: "int option"
  ti_weekday :: int

record turn_instance_candidate =
  tic_turn :: int
  tic_start :: int
  tic_end :: int
  tic_weekday :: int
  tic_room :: "int option"

subsection \<open>Session, commit and rollback\<close>

record tables =
  institutions :: "institution list"
  departments :: "department list"
  classes :: "class_row list"
  class_instances :: "class_instance_row list"
  courses :: "course list"
  buildings :: "building list"
  rooms :: "room list"
  admissions :: "admission list"
  turn_instances :: "turn_instance list"

text \<open>
  Keys of the controller's room cache: \<^verbatim>\<open>__load_rooms__\<close> stores under the building's
  name, a \<^verbatim>\<open>str\<close>, and \<^verbatim>\<open>add_room\<close> probes with \<^verbatim>\<open>candidate.building\<close>, a
  \<^verbatim>\<open>models.Building\<close>. Python compares the two as unequal.
\<close>

datatype py_key = PyStr string | PyObj int

text \<open>
  The controller: \<open>committed\<close> is what the backend holds, \<open>session\<close> is the view of the
  controller's session (the committed rows with the pending changes; a query flushes
  first, so it sees them). The caches hold references into the session's tables.
\<close>

record controller =
  caching :: bool
  committed :: tables
  session :: tables
  institutions_cache :: "(int, nat) dict"
  departments_cache :: "(int, nat) dict"
  courses_cache :: "(int option, nat) dict"
  course_abbrs_cache :: "(string option, nat list) dict"
  rooms_cache :: "(py_key, (int option, (string, int) dict) dict) dict"

text \<open>
  \<^verbatim>\<open>session.commit()\<close> and \<^verbatim>\<open>session.rollback()\<close>. Whether the backend takes a commit
  (its constraints, its availability) is outside the controller: \<open>accepts\<close> decides it,
  and a refused commit raises and leaves the pending changes in the session.
\<close>

type_synonym 'a result = "(error \<times> controller) + ('a \<times> controller)"

definition commit :: "(tables \<Rightarrow> bool) \<Rightarrow> controller \<Rightarrow> unit result" where
  "commit accepts s =
     (if accepts (session s) then Inr ((), s\<lparr>committed := session s\<rparr>) else Inl (IntegrityError, s))"

definition rollback :: "controller \<Rightarrow> controller" where
  "rollback s = s\<lparr>session := committed s\<rparr>"

subsection \<open>Classes\<close>

definition get_class :: "controller \<Rightarrow> int \<Rightarrow> nat option" where
  "get_class s internal_id = first_index (\<lambda>r. class_internal_id r = internal_id) (classes (session s))"

definition class_key :: "class_candidate \<Rightarrow> class_row \<Rightarrow> bool" where
  "class_key candidate r =
     (class_internal_id r = clc_id candidate \<and> class_department r = clc_department candidate)"

definition name_change_msg :: "string option \<Rightarrow> string option \<Rightarrow> int \<Rightarrow> string" where
  "name_change_msg old new iid =
     ''Class name change attempt. '' @ str_opt old @ '' to '' @ str_opt new @ '' (iid '' @ str_int iid @ '')''"

definition abbreviation_change_msg :: "string option \<Rightarrow> string option \<Rightarrow> int \<Rightarrow> string" where
  "abbreviation_change_msg old new iid =
     ''Class abbreviation change attempt. '' @ str_opt old @ '' to '' @ str_opt new @ '' (iid '' @ str_int iid @ '')''"

text \<open>\<^verbatim>\<open>Controller.add_class\<close>; the result is the reference \<^verbatim>\<open>db_class\<close>.\<close>

definition add_class :: "(tables \<Rightarrow> bool) \<Rightarrow> class_candidate \<Rightarrow> controller \<Rightarrow> nat result" where
  "add_class accepts candidate s =
     (case first_index (class_key candidate) (classes (session s)) of
        Some i \<Rightarrow>
          (let db_class = classes (session s) ! i
           in if class_name db_class \<noteq> clc_name candidate
              then Inl (Exception (name_change_msg (class_name db_class) (clc_name candidate) (clc_id candidate)), s)
              else if clc_abbreviation candidate \<noteq> None
              then
                (if class_abbreviation db_class = None
                 then
                   (case commit accepts
                           (s\<lparr>session := (session s)\<lparr>classes := (classes (session s))
                                [i := db_class\<lparr>class_abbreviation := clc_abbreviation candidate\<rparr>]\<rparr>\<rparr>) of
                      Inl e \<Rightarrow> Inl e
                    | Inr (u, s') \<Rightarrow> Inr (i, s'))
                 else if class_abbreviation db_class \<noteq> None
                         \<and> class_abbreviation db_class \<noteq> clc_abbreviation candidate
                 then Inl (Exception (abbreviation_change_msg (class_abbreviation db_class)
                                        (clc_abbreviation candidate) (clc_id candidate)), s)
                 else Inr (i, s))
              else Inr (i, s))
      | None \<Rightarrow>
          (let db_class = \<lparr>class_internal_id = clc_id candidate, class_name = clc_name candidate,
                           class_department = clc_department candidate,
                           class_abbreviation = clc_abbreviation candidate, class_ects = clc_ects candidate\<rparr>
           in case commit accepts (s\<lparr>session := (session s)\<lparr>classes := classes (session s) @ [db_class]\<rparr>\<rparr>) of
                Inl e \<Rightarrow> Inl e
              | Inr (u, s') \<Rightarrow> Inr (length (classes (session s)), s')))"

subsection \<open>Class instances\<close>



subsection \<open>Rooms\<close>

definition dict_get :: "('k, 'v list) dict \<Rightarrow> 'k \<Rightarrow> 'v list" where
  "dict_get d k = (case map_of d k of None \<Rightarrow> [] | Some v \<Rightarrow> v)"

text \<open>
  \<^verbatim>\<open>Controller.__load_rooms__\<close>: the query pairs every room with every building, and each
  pair stores the building under (building name, room type, room name). An inner
  dictionary that is missing is created empty first.
\<close>

definition rooms_put ::
  "room \<times> building \<Rightarrow> (py_key, (int option, (string, int) dict) dict) dict
     \<Rightarrow> (py_key, (int option, (string, int) dict) dict) dict" where
  "rooms_put rb d =
     (let by_type = dict_get d (PyStr (building_name (snd rb)));
          by_name = dict_get by_type (room_type (fst rb))
      in dict_set (PyStr (building_name (snd rb)))
           (dict_set (room_type (fst rb))
              (dict_set (room_name (fst rb)) (building_id (snd rb)) by_name) by_type) d)"

definition load_rooms :: "controller \<Rightarrow> controller" where
  "load_rooms s =
     s\<lparr>rooms_cache :=
         fold rooms_put
           (concat (map (\<lambda>r. map (\<lambda>b. (r, b)) (buildings (session s))) (rooms (session s)))) []\<rparr>"

definition room_key :: "room_candidate \<Rightarrow> room \<Rightarrow> bool" where
  "room_key candidate r =
     (room_name r = rc_name candidate \<and> room_type r = rc_type candidate
      \<and> room_building r = rc_building candidate)"

definition new_room :: "room_candidate \<Rightarrow> room" where
  "new_room candidate =
     \<lparr>room_id = rc_id candidate, room_name = rc_name candidate,
      room_type = rc_type candidate, room_building = rc_building candidate\<rparr>"

text \<open>
  What \<^verbatim>\<open>add_room\<close> returns: a room of the session, or the value found in the cache
  (which \<^verbatim>\<open>__load_rooms__\<close> filled with buildings), or \<open>None\<close> when the handler swallowed
  an exception.
\<close>

datatype room_result = RoomRef nat | CachedBuilding int | NoRoom

definition rooms_cache_lookup :: "controller \<Rightarrow> room_candidate \<Rightarrow> int option" where
  "rooms_cache_lookup s candidate =
     (case map_of (rooms_cache s) (PyObj (rc_building candidate)) of
        None \<Rightarrow> None
      | Some by_type \<Rightarrow>
          (case map_of by_type (rc_type candidate) of
             None \<Rightarrow> None
           | Some by_name \<Rightarrow> map_of by_name (rc_name candidate)))"

text \<open>
  \<^verbatim>\<open>Controller.add_room\<close>. The \<^verbatim>\<open>except\<close> clause logs, rolls back and falls through, so the
  method returns \<open>None\<close> then; the \<^verbatim>\<open>finally\<close> clause reloads the cache after an insert
  that committed.
\<close>

definition add_room :: "(tables \<Rightarrow> bool) \<Rightarrow> room_candidate \<Rightarrow> controller \<Rightarrow> room_result \<times> controller" where
  "add_room accepts candidate s =
     (if caching s then
        (case rooms_cache_lookup s candidate of
           Some b \<Rightarrow> (CachedBuilding b, s)
         | None \<Rightarrow>
             (case commit accepts (s\<lparr>session := (session s)\<lparr>rooms := rooms (session s) @ [new_room candidate]\<rparr>\<rparr>) of
                Inl (e, s') \<Rightarrow> (NoRoom, rollback s')
              | Inr (u, s') \<Rightarrow> (RoomRef (length (rooms (session s))), load_rooms s')))
      else
        (case first_index (room_key candidate) (rooms (session s)) of
           Some i \<Rightarrow> (RoomRef i, s)
         | None \<Rightarrow>
             (case commit accepts (s\<lparr>session := (session s)\<lparr>rooms := rooms (session s) @ [new_room candidate]\<rparr>\<rparr>) of
                Inl (e, s') \<Rightarrow> (NoRoom, rollback s')
              | Inr (u, s') \<Rightarrow> (RoomRef (length (rooms (session s))), s'))))"

subsection \<open>Admissions\<close>



text \<open>
  The uniqueness constraint \<^verbatim>\<open>un_admission\<close> that \<^verbatim>\<open>models.Admission\<close> declares, on
  (student, name, year, phase). As in SQL, a row with a null in one of these columns
  conflicts with no row.
\<close>

definition admission_unique_key :: "admission \<Rightarrow> (int \<times> string \<times> int \<times> int) option" where
  "admission_unique_key a =
     (case (adm_student a, adm_name a) of
        (Some st, Some n) \<Rightarrow> Some (st, n, adm_year a, adm_phase a)
      | _ \<Rightarrow> None)"


subsection \<open>Institutions and departments\<close>

text \<open>
  The two bound updates of \<^verbatim>\<open>add_institutions\<close> and \<^verbatim>\<open>add_departments\<close>: an unset
  bound takes the candidate's, a set one moves only outwards. The flag \<^verbatim>\<open>updated\<close> only
  feeds the log line and is left out.
\<close>

definition merge_first_year :: "int option \<Rightarrow> 'a temporal_entity_scheme \<Rightarrow> 'a temporal_entity_scheme" where
  "merge_first_year candidate_first_year r =
     (case first_year r of
        None \<Rightarrow> r\<lparr>first_year := candidate_first_year\<rparr>
      | Some old \<Rightarrow>
          (case candidate_first_year of
             None \<Rightarrow> r
           | Some new \<Rightarrow> if new < old then r\<lparr>first_year := Some new\<rparr> else r))"

definition merge_last_year :: "int option \<Rightarrow> 'a temporal_entity_scheme \<Rightarrow> 'a temporal_entity_scheme" where
  "merge_last_year candidate_last_year r =
     (case last_year r of
        None \<Rightarrow> r\<lparr>last_year := candidate_last_year\<rparr>
      | Some old \<Rightarrow>
          (case candidate_last_year of
             None \<Rightarrow> r
           | Some new \<Rightarrow> if new > old then r\<lparr>last_year := Some new\<rparr> else r))"

definition load_institutions :: "controller \<Rightarrow> controller" where
  "load_institutions s =
     s\<lparr>institutions_cache :=
         fold (\<lambda>i d. dict_set (inst_id (institutions (session s) ! i)) i d)
           [0 ..< length (institutions (session s))] []\<rparr>"

definition lookup_institution :: "controller \<Rightarrow> int \<Rightarrow> nat option" where
  "lookup_institution s identifier =
     (if caching s then map_of (institutions_cache s) identifier
      else first_index (\<lambda>r. inst_id r = identifier) (institutions (session s)))"

definition update_institution :: "institution_candidate \<Rightarrow> institution \<Rightarrow> institution" where
  "update_institution candidate institution =
     (let r1 = (if ic_name candidate \<noteq> None \<and> inst_name institution \<noteq> ic_name candidate
                then institution\<lparr>inst_name := ic_name candidate\<rparr> else institution);
          r2 = (if ic_abbreviation candidate \<noteq> None
                then r1\<lparr>inst_abbreviation := ic_abbreviation candidate\<rparr> else r1)
      in merge_last_year (last_year candidate) (merge_first_year (first_year candidate) r2))"

definition new_institution :: "institution_candidate \<Rightarrow> institution" where
  "new_institution candidate =
     \<lparr>first_year = first_year candidate, last_year = last_year candidate,
      inst_id = cand_id candidate, inst_name = ic_name candidate,
      inst_abbreviation = ic_abbreviation candidate\<rparr>"

text \<open>The body of the \<^verbatim>\<open>for\<close> loop of \<^verbatim>\<open>add_institutions\<close>, for one candidate.\<close>

definition reconcile_institution :: "institution_candidate \<Rightarrow> controller \<Rightarrow> controller" where
  "reconcile_institution candidate s =
     (case lookup_institution s (cand_id candidate) of
        None \<Rightarrow> s\<lparr>session := (session s)\<lparr>institutions := institutions (session s) @ [new_institution candidate]\<rparr>\<rparr>
      | Some i \<Rightarrow>
          s\<lparr>session := (session s)\<lparr>institutions := (institutions (session s))
               [i := update_institution candidate (institutions (session s) ! i)]\<rparr>\<rparr>)"

text \<open>
  The \<^verbatim>\<open>try\<close> block of \<^verbatim>\<open>add_institutions\<close>: the loop, then one commit for the whole
  batch, then the reload of the cache.
\<close>

definition add_institutions_try :: "(tables \<Rightarrow> bool) \<Rightarrow> institution_candidate list \<Rightarrow> controller \<Rightarrow> unit result" where
  "add_institutions_try accepts candidates s =
     (case commit accepts (fold reconcile_institution candidates s) of
        Inl e \<Rightarrow> Inl e
      | Inr (u, s') \<Rightarrow> Inr ((), if caching s' then load_institutions s' else s'))"

text \<open>
  \<^verbatim>\<open>Controller.add_institutions\<close>: the \<^verbatim>\<open>except\<close> clause logs the error and rolls the
  session back; it does not raise again.
\<close>

definition add_institutions :: "(tables \<Rightarrow> bool) \<Rightarrow> institution_candidate list \<Rightarrow> controller \<Rightarrow> unit result" where
  "add_institutions accepts candidates s =
     (case add_institutions_try accepts candidates s of
        Inl (e, s') \<Rightarrow> Inr ((), rollback s')
      | Inr r \<Rightarrow> Inr r)"

definition load_departments :: "controller \<Rightarrow> controller" where
  "load_departments s =
     s\<lparr>departments_cache :=
         fold (\<lambda>i d. dict_set (dept_id (departments (session s) ! i)) i d)
           [0 ..< length (departments (session s))] []\<rparr>"

definition lookup_department :: "controller \<Rightarrow> int \<Rightarrow> nat option" where
  "lookup_department s identifier =
     (if caching s then map_of (departments_cache s) identifier
      else first_index (\<lambda>r. dept_id r = identifier) (departments (session s)))"

definition update_department :: "department_candidate \<Rightarrow> department \<Rightarrow> department" where
  "update_department candidate department =
     (let r1 = (if dc_name candidate \<noteq> None \<and> dept_name department \<noteq> dc_name candidate
                then department\<lparr>dept_name := dc_name candidate\<rparr> else department)
      in merge_last_year (last_year candidate) (merge_first_year (first_year candidate) r1))"

definition new_department :: "department_candidate \<Rightarrow> department" where
  "new_department candidate =
     \<lparr>first_year = first_year candidate, last_year = last_year candidate,
      dept_id = cand_id candidate, dept_name = dc_name candidate,
      dept_institution = dc_institution candidate\<rparr>"

definition reconcile_department :: "department_candidate \<Rightarrow> controller \<Rightarrow> controller" where
  "reconcile_department candidate s =
     (case lookup_department s (cand_id candidate) of
        None \<Rightarrow> s\<lparr>session := (session s)\<lparr>departments := departments (session s) @ [new_department candidate]\<rparr>\<rparr>
      | Some i \<Rightarrow>
          s\<lparr>session := (session s)\<lparr>departments := (departments (session s))
               [i := update_department candidate (departments (session s) ! i)]\<rparr>\<rparr>)"

definition add_departments_try :: "(tables \<Rightarrow> bool) \<Rightarrow> department_candidate list \<Rightarrow> controller \<Rightarrow> unit result" where
  "add_departments_try accepts candidates s =
     (case commit accepts (fold reconcile_department candidates s) of
        Inl e \<Rightarrow> Inl e
      | Inr (u, s') \<Rightarrow> Inr ((), if caching s' then load_departments s' else s'))"

text \<open>\<^verbatim>\<open>Controller.add_departments\<close>, with the same \<^verbatim>\<open>except\<close> clause.\<close>

definition add_departments :: "(tables \<Rightarrow> bool) \<Rightarrow> department_candidate list \<Rightarrow> controller \<Rightarrow> unit result" where
  "add_departments accepts candidates s =
     (case add_departments_try accepts candidates s of
        Inl (e, s') \<Rightarrow> Inr ((), rollback s')
      | Inr r \<Rightarrow> Inr r)"

subsection \<open>Courses\<close>

definition load_courses :: "controller \<Rightarrow> controller" where
  "load_courses s =
     s\<lparr>courses_cache :=
         fold (\<lambda>i d. dict_set (course_internal_id (courses (session s) ! i)) i d)
           [0 ..< length (courses (session s))] [],
       course_abbrs_cache :=
         fold (\<lambda>i d. dict_set (course_abbreviation (courses (session s) ! i))
                        (dict_get d (course_abbreviation (courses (session s) ! i)) @ [i]) d)
           [0 ..< length (courses (session s))] []\<rparr>"

definition course_key :: "course_candidate \<Rightarrow> course \<Rightarrow> bool" where
  "course_key candidate r =
     (course_internal_id r = Some (cand_id candidate) \<and> course_institution r = cc_institution candidate)"

definition new_course :: "course_candidate \<Rightarrow> course" where
  "new_course candidate =
     \<lparr>first_year = first_year candidate, last_year = last_year candidate,
      course_internal_id = Some (cand_id candidate), course_name = cc_name candidate,
      course_abbreviation = cc_abbreviation candidate, course_degree = cc_degree candidate,
      course_institution = cc_institution candidate\<rparr>"

text \<open>
  The updates \<^verbatim>\<open>add_courses\<close> makes to a stored course, in the source's order. The two
  conditions on the bounds are \<^verbatim>\<open>bound is None or candidate is not None and candidate < bound\<close>,
  for \<^verbatim>\<open>first_year\<close> and for \<^verbatim>\<open>last_year\<close> alike. The result is paired with \<^verbatim>\<open>changed\<close>.
\<close>

definition course_first_year_moves :: "course_candidate \<Rightarrow> course \<Rightarrow> bool" where
  "course_first_year_moves candidate db_course =
     (case first_year db_course of
        None \<Rightarrow> True
      | Some old \<Rightarrow> (case first_year candidate of None \<Rightarrow> False | Some new \<Rightarrow> new < old))"

definition course_last_year_moves :: "course_candidate \<Rightarrow> course \<Rightarrow> bool" where
  "course_last_year_moves candidate db_course =
     (case last_year db_course of
        None \<Rightarrow> True
      | Some old \<Rightarrow> (case last_year candidate of None \<Rightarrow> False | Some new \<Rightarrow> new < old))"

definition update_course :: "course_candidate \<Rightarrow> course \<Rightarrow> course \<times> bool" where
  "update_course candidate db_course =
     (let (r1, c1) = (if cc_abbreviation candidate \<noteq> None
                      then (db_course\<lparr>course_abbreviation := cc_abbreviation candidate\<rparr>, True)
                      else (db_course, False));
          (r2, c2) = (if cc_degree candidate \<noteq> None
                      then (r1\<lparr>course_degree := cc_degree candidate\<rparr>, True) else (r1, c1));
          (r3, c3) = (if course_first_year_moves candidate r2
                      then (r2\<lparr>first_year := first_year candidate\<rparr>, True) else (r2, c2));
          (r4, c4) = (if course_last_year_moves candidate r3
                      then (r3\<lparr>last_year := last_year candidate\<rparr>, True) else (r3, c3))
      in (r4, c4))"

text \<open>
  The body of the \<^verbatim>\<open>for\<close> loop of \<^verbatim>\<open>add_courses\<close>, for one candidate: a new course is
  committed at once, a stored one after its updates when something was assigned; a
  candidate with another name for a stored course raises before any assignment.
\<close>

definition reconcile_course :: "(tables \<Rightarrow> bool) \<Rightarrow> course_candidate \<Rightarrow> controller \<Rightarrow> unit result" where
  "reconcile_course accepts candidate s =
     (case first_index (course_key candidate) (courses (session s)) of
        None \<Rightarrow>
          commit accepts (s\<lparr>session := (session s)\<lparr>courses := courses (session s) @ [new_course candidate]\<rparr>\<rparr>)
      | Some i \<Rightarrow>
          (let db_course = courses (session s) ! i
           in if cc_name candidate \<noteq> None \<and> cc_name candidate \<noteq> course_name db_course
              then Inl (Exception ''Attempted to change a course name'', s)
              else
                (let (db_course', changed) = update_course candidate db_course;
                     s1 = s\<lparr>session := (session s)\<lparr>courses := (courses (session s))[i := db_course']\<rparr>\<rparr>
                 in if changed then commit accepts s1 else Inr ((), s1))))"

text \<open>The \<^verbatim>\<open>try\<close> block of \<^verbatim>\<open>add_courses\<close>: the loop; the first exception ends it.\<close>

fun add_courses_try :: "(tables \<Rightarrow> bool) \<Rightarrow> course_candidate list \<Rightarrow> controller \<Rightarrow> unit result" where
  "add_courses_try accepts [] s = Inr ((), s)"
| "add_courses_try accepts (candidate # candidates) s =
     (case reconcile_course accepts candidate s of
        Inl e \<Rightarrow> Inl e
      | Inr (u, s') \<Rightarrow> add_courses_try accepts candidates s')"

text \<open>
  \<^verbatim>\<open>Controller.add_courses\<close>: the \<^verbatim>\<open>except\<close> clause rolls back and raises a new exception
  around the caught one; the \<^verbatim>\<open>finally\<close> clause reloads the cache either way.
\<close>

definition add_courses :: "(tables \<Rightarrow> bool) \<Rightarrow> course_candidate list \<Rightarrow> controller \<Rightarrow> unit result" where
  "add_courses accepts candidates s =
     (case add_courses_try accepts candidates s of
        Inl (e, s') \<Rightarrow>
          Inl (Wrapped (''Failed to add courses.'' @ [CHR 0x0A]) e,
               if caching s' then load_courses (rollback s') else rollback s')
      | Inr (u, s') \<Rightarrow> Inr ((), if caching s' then load_courses s' else s'))"

text \<open>
  \<^verbatim>\<open>get_course\<close> reads \<^verbatim>\<open>match.initial_year\<close>. \<^verbatim>\<open>models.Course\<close> has the columns of
  \<^verbatim>\<open>TemporalEntity\<close>, \<^verbatim>\<open>first_year\<close> and \<^verbatim>\<open>last_year\<close>, and no attribute of that name:
  reading it raises.
\<close>

definition initial_year :: "course \<Rightarrow> error + int option" where
  "initial_year match = Inl (AttributeError ''initial_year'')"

text \<open>
  The loop \<^verbatim>\<open>for match in matches: if match.initial_year <= year <= match.last_year: return match\<close>;
  falling out of it returns \<open>None\<close>.
\<close>

fun match_year :: "course list \<Rightarrow> nat list \<Rightarrow> int option \<Rightarrow> error + nat option" where
  "match_year cs [] year = Inr None"
| "match_year cs (match # matches) year =
     (case initial_year (cs ! match) of
        Inl e \<Rightarrow> Inl e
      | Inr first \<Rightarrow>
          (case py_le first year of
             Inl e \<Rightarrow> Inl e
           | Inr False \<Rightarrow> match_year cs matches year
           | Inr True \<Rightarrow>
               (case py_le year (last_year (cs ! match)) of
                  Inl e \<Rightarrow> Inl e
                | Inr False \<Rightarrow> match_year cs matches year
                | Inr True \<Rightarrow> Inr (Some match))))"

definition pick_match :: "course list \<Rightarrow> nat list \<Rightarrow> int option \<Rightarrow> error + nat option" where
  "pick_match cs matches year =
     (if length matches = 0 then Inr None
      else if length matches = 1 then Inr (Some (matches ! 0))
      else if year = None then Inl (Exception ''Multiple matches. Year unspecified'')
      else match_year cs matches year)"

text \<open>
  \<^verbatim>\<open>Controller.get_course(identifier, abbreviation, year)\<close>. Without the cache, the branch
  for an abbreviation queries \<^verbatim>\<open>filter_by(internal_id=identifier)\<close>, where \<^verbatim>\<open>identifier\<close> is
  \<open>None\<close>.
\<close>

definition get_course :: "controller \<Rightarrow> int option \<Rightarrow> string option \<Rightarrow> int option \<Rightarrow> error + nat option" where
  "get_course s identifier abbreviation year =
     (if identifier \<noteq> None then
        (if caching s then Inr (map_of (courses_cache s) identifier)
         else Inr (first_index (\<lambda>r. course_internal_id r = identifier) (courses (session s))))
      else if abbreviation \<noteq> None then
        (if caching s then
           (case map_of (course_abbrs_cache s) abbreviation of
              None \<Rightarrow> Inr None
            | Some matches \<Rightarrow> pick_match (courses (session s)) matches year)
         else
           pick_match (courses (session s))
             (filter (\<lambda>i. course_internal_id (courses (session s) ! i) = identifier)
                [0 ..< length (courses (session s))]) year)
      else Inr None)"

subsection \<open>Turn instances\<close>

text \<open>
  The first loop of \<^verbatim>\<open>add_turn_instances\<close>: the turn all the instances belong to, \<open>None\<close>
  for an empty list, an exception when two instances differ in their turn.
\<close>

fun common_turn :: "turn_instance_candidate list \<Rightarrow> int option \<Rightarrow> error + int option" where
  "common_turn [] turn = Inr turn"
| "common_turn (instance # instances) turn =
     (case turn of
        None \<Rightarrow> common_turn instances (Some (tic_turn instance))
      | Some t \<Rightarrow>
          if t \<noteq> tic_turn instance then Inl (Exception ''Instances belong to multiple turns'')
          else common_turn instances turn)"

definition same_slot :: "turn_instance \<Rightarrow> turn_instance_candidate \<Rightarrow> bool" where
  "same_slot db_turn_instance instance =
     (ti_start db_turn_instance = tic_start instance \<and> ti_end db_turn_instance = tic_end instance
      \<and> ti_weekday db_turn_instance = tic_weekday instance)"

text \<open>
  \<^verbatim>\<open>models.TurnInstance(turn=..., start=..., end=..., room=..., weekday=...)\<close>: the object
  the controller builds has no identifier; the sequence of the table gives it one when
  the row is flushed, which the model does not follow. A row that was stored keeps the
  identifier it has.
\<close>

definition new_turn_instance :: "int \<Rightarrow> turn_instance_candidate \<Rightarrow> turn_instance" where
  "new_turn_instance turn instance =
     \<lparr>ti_id = None, ti_turn = turn, ti_start = tic_start instance, ti_end = tic_end instance,
      ti_room = tic_room instance, ti_weekday = tic_weekday instance\<rparr>"

definition remove_at :: "nat \<Rightarrow> 'a list \<Rightarrow> 'a list" where
  "remove_at k xs = take k xs @ drop (Suc k) xs"

text \<open>
  The incremental branch, as a pass over the table: a row of another turn stays; a row of
  this turn is matched with the first instance still in the list that has its start, end
  and weekday, takes that instance's room when it differs, and the instance leaves the
  list (\<^verbatim>\<open>instances.remove(instance)\<close> removes that very object); a row without a match
  is deleted. The result is the rows that stay and the instances left over.
\<close>

fun sync_turn_instances ::
  "int \<Rightarrow> turn_instance list \<Rightarrow> turn_instance_candidate list
     \<Rightarrow> turn_instance list \<times> turn_instance_candidate list" where
  "sync_turn_instances turn [] instances = ([], instances)"
| "sync_turn_instances turn (db_turn_instance # rest) instances =
     (if ti_turn db_turn_instance \<noteq> turn
      then (let (kept, left) = sync_turn_instances turn rest instances
            in (db_turn_instance # kept, left))
      else
        (case first_index (same_slot db_turn_instance) instances of
           Some k \<Rightarrow>
             (let instance = instances ! k;
                  updated = (if ti_room db_turn_instance \<noteq> tic_room instance
                             then db_turn_instance\<lparr>ti_room := tic_room instance\<rparr>
                             else db_turn_instance);
                  (kept, left) = sync_turn_instances turn rest (remove_at k instances)
              in (updated # kept, left))
         | None \<Rightarrow> sync_turn_instances turn rest instances))"

text \<open>
  \<^verbatim>\<open>Controller.add_turn_instances\<close>. The destructive branch deletes the turn's rows, appends
  a row for every instance and commits (the deletion itself is taken to succeed, so the
  handler around it is never entered); the incremental branch changes the session and
  does not commit.
\<close>

definition add_turn_instances ::
  "(tables \<Rightarrow> bool) \<Rightarrow> turn_instance_candidate list \<Rightarrow> bool \<Rightarrow> controller \<Rightarrow> unit result" where
  "add_turn_instances accepts instances destructive s =
     (case common_turn instances None of
        Inl e \<Rightarrow> Inl (e, s)
      | Inr None \<Rightarrow> Inr ((), s)
      | Inr (Some turn) \<Rightarrow>
          if destructive then
            (let s1 = s\<lparr>session := (session s)\<lparr>turn_instances :=
                         filter (\<lambda>r. ti_turn r \<noteq> turn) (turn_instances (session s))
                           @ map (new_turn_instance turn) instances\<rparr>\<rparr>
             in if length instances > 0 then commit accepts s1 else Inr ((), s1))
          else
            (let (kept, left) = sync_turn_instances turn (turn_instances (session s)) instances
             in Inr ((), s\<lparr>session := (session s)\<lparr>turn_instances :=
                              kept @ map (new_turn_instance turn) left\<rparr>\<rparr>)))"

subsection \<open>The constraints the schema declares\<close>

text \<open>
  The constraints of \<^verbatim>\<open>models.py\<close> on the tables of this model, which a backend checks at
  a commit: the primary key of \<^verbatim>\<open>departments\<close>, and the uniqueness constraints
  \<^verbatim>\<open>un_room\<close>, \<^verbatim>\<open>un_class_instance\<close>, \<^verbatim>\<open>un_admission\<close> and \<^verbatim>\<open>un_turn_instance\<close>. As in SQL,
  a row with a null in a constrained column conflicts with no row.
\<close>

definition pk_departments :: "tables \<Rightarrow> bool" where
  "pk_departments t = distinct (map dept_id (departments t))"

definition room_unique_key :: "room \<Rightarrow> (int \<times> string \<times> int) option" where
  "room_unique_key r =
     (case room_type r of None \<Rightarrow> None | Some ty \<Rightarrow> Some (room_building r, room_name r, ty))"

definition un_room :: "tables \<Rightarrow> bool" where
  "un_room t = distinct (List.map_filter room_unique_key (rooms t))"

definition un_class_instance :: "tables \<Rightarrow> bool" where
  "un_class_instance t = distinct (map (\<lambda>r. (ci_parent r, ci_year r, ci_period r)) (class_instances t))"

definition un_admission :: "tables \<Rightarrow> bool" where
  "un_admission t = distinct (List.map_filter admission_unique_key (admissions t))"

definition un_turn_instance :: "tables \<Rightarrow> bool" where
  "un_turn_instance t = distinct (map (\<lambda>r. (ti_turn r, ti_start r, ti_weekday r)) (turn_instances t))"

definition schema_constraints :: "tables \<Rightarrow> bool" where
  "schema_constraints t =
     (pk_departments t \<and> un_room t \<and> un_class_instance t \<and> un_admission t \<and> un_turn_instance t)"

subsection \<open>A new controller\<close>

definition empty_tables :: tables where
  "empty_tables =
     \<lparr>institutions = [], departments = [], classes = [], class_instances = [], courses = [],
      buildings = [], rooms = [], admissions = [], turn_instances = []\<rparr>"

text \<open>
  \<^verbatim>\<open>Controller.__init__\<close> over a store that holds \<open>t\<close>: a fresh session, and the caches loaded
  when caching is asked for. (The default rows of the degree, period and turn type
  tables are not part of this model.)
\<close>

definition Controller :: "tables \<Rightarrow> bool \<Rightarrow> controller" where
  "Controller t cache =
     (let s = \<lparr>caching = cache, committed = t, session = t, institutions_cache = [],
               departments_cache = [], courses_cache = [], course_abbrs_cache = [], rooms_cache = []\<rparr>
      in if cache then load_rooms (load_courses (load_departments (load_institutions s))) else s)"

section \<open>Notions used in the statements\<close>

text \<open>
  The trace after the calls for \<open>w\<close> that failed with the counter going from \<open>c\<close> to
  \<open>k\<close>: one call, one rollback and one sleep of \<open>5 + counter\<close> seconds each.
\<close>

definition failed_from :: "'w \<Rightarrow> nat \<Rightarrow> nat \<Rightarrow> 'w trace \<Rightarrow> 'w trace" where
  "failed_from w c k tr =
     tr\<lparr>calls := calls tr @ replicate (k - c) w,
        rollbacks := rollbacks tr + (k - c),
        sleeps := sleeps tr @ map (\<lambda>i. 5 + i) [Suc c ..< Suc k]\<rparr>"

text \<open>The time slot of a stored turn instance, and the row it becomes when it is matched.\<close>

definition slot_of :: "turn_instance \<Rightarrow> int \<times> int \<times> int" where
  "slot_of r = (ti_start r, ti_end r, ti_weekday r)"

definition cand_slot :: "turn_instance_candidate \<Rightarrow> int \<times> int \<times> int" where
  "cand_slot c = (tic_start c, tic_end c, tic_weekday c)"

definition matched :: "turn_instance_candidate list \<Rightarrow> turn_instance \<Rightarrow> turn_instance option" where
  "matched instances e = map_option (\<lambda>c. e\<lparr>ti_room := tic_room c\<rparr>) (find (same_slot e) instances)"

section \<open>Temporal range: widening\<close>

lemma add_year_Inr:
  "range_ok e \<Longrightarrow> \<exists>e'. add_year y e = Inr e' \<and> range_ok e'"
  by (cases y; cases "first_year e"; cases "last_year e")
     (auto simp: add_year_def widen_def fill_unset_def range_ok_def Let_def split: bool.splits)

lemma add_year_inside:
  "first_year e = Some a \<Longrightarrow> last_year e = Some b \<Longrightarrow> a \<le> y \<Longrightarrow> y \<le> b \<Longrightarrow>
   add_year (Some y) e = Inr e"
  by (simp add: add_year_def widen_def fill_unset_def)

lemma cand_add_year_inside:
  "first_year c = Some a \<Longrightarrow> last_year c = Some b \<Longrightarrow> a \<le> y \<Longrightarrow> y \<le> b \<Longrightarrow>
   cand_add_year (Some y) c = Inr c"
  by (simp add: cand_add_year_def widen_def fill_unset_def)

text \<open>
  C4. For the persisted entity and for the candidate alike: from the range [2010, 2012],
  \<open>add_year 2008\<close> followed by \<open>add_year 2015\<close> gives exactly [2008, 2015], the other fields
  untouched; and \<open>add_year y\<close> for a year \<open>y\<close> with \<open>first_year \<le> y \<le> last_year\<close> returns the
  entity as it was.
\<close>

theorem add_year_monotonic_widening:
  fixes e :: "'a temporal_entity_scheme" and c :: "'b candidate_entity_scheme"
  shows
  "(case add_year (Some 2008) (e\<lparr>first_year := Some 2010, last_year := Some 2012\<rparr>) of
      Inl err \<Rightarrow> Inl err | Inr e1 \<Rightarrow> add_year (Some 2015) e1)
     = Inr (e\<lparr>first_year := Some 2008, last_year := Some 2015\<rparr>)
   \<and> (case cand_add_year (Some 2008) (c\<lparr>first_year := Some 2010, last_year := Some 2012\<rparr>) of
      Inl err \<Rightarrow> Inl err | Inr c1 \<Rightarrow> cand_add_year (Some 2015) c1)
     = Inr (c\<lparr>first_year := Some 2008, last_year := Some 2015\<rparr>)
   \<and> (\<forall>a b y. first_year e = Some a \<and> last_year e = Some b \<and> a \<le> y \<and> y \<le> b
         \<longrightarrow> add_year (Some y) e = Inr e)
   \<and> (\<forall>a b y. first_year c = Some a \<and> last_year c = Some b \<and> a \<le> y \<and> y \<le> b
         \<longrightarrow> cand_add_year (Some y) c = Inr c)"
proof -
  have seq: "(case add_year (Some 2008) (e\<lparr>first_year := Some 2010, last_year := Some 2012\<rparr>) of
      Inl err \<Rightarrow> Inl err | Inr e1 \<Rightarrow> add_year (Some 2015) e1)
     = Inr (e\<lparr>first_year := Some 2008, last_year := Some 2015\<rparr>)"
    by (simp add: add_year_def widen_def fill_unset_def)
  have cseq: "(case cand_add_year (Some 2008) (c\<lparr>first_year := Some 2010, last_year := Some 2012\<rparr>) of
      Inl err \<Rightarrow> Inl err | Inr c1 \<Rightarrow> cand_add_year (Some 2015) c1)
     = Inr (c\<lparr>first_year := Some 2008, last_year := Some 2015\<rparr>)"
    by (simp add: cand_add_year_def widen_def fill_unset_def)
  show ?thesis
    using seq cseq add_year_inside [of e] cand_add_year_inside [of c] by blast
qed

theorem add_year_monotonic_widening_witness:
  "first_year \<lparr>first_year = Some 2010, last_year = Some 2012\<rparr> = Some 2010
   \<and> last_year \<lparr>first_year = Some 2010, last_year = Some 2012\<rparr> = Some 2012
   \<and> (2010::int) \<le> 2011 \<and> (2011::int) \<le> 2012
   \<and> add_year (Some 2011) \<lparr>first_year = Some 2010, last_year = Some 2012\<rparr>
       = Inr \<lparr>first_year = Some 2010, last_year = Some 2012\<rparr>
   \<and> cand_add_year (Some 2011) \<lparr>first_year = Some 2010, last_year = Some 2012, cand_id = 1\<rparr>
       = Inr \<lparr>first_year = Some 2010, last_year = Some 2012, cand_id = 1\<rparr>"
  using add_year_monotonic_widening
    [of "\<lparr>first_year = Some 2010, last_year = Some 2012\<rparr>"
        "\<lparr>first_year = Some 2010, last_year = Some 2012, cand_id = 1\<rparr>"]
  by simp

text \<open>
  C10. A persisted temporal entity whose bounds are both unset, or both set with
  \<open>first_year \<le> last_year\<close>, is again such an entity after \<open>add_year\<close> with any argument
  (and \<open>add_year\<close> does return: no comparison raises); \<open>add_year None\<close> returns the entity
  unchanged, whatever its bounds.
\<close>

theorem add_year_preserves_range_ok:
  "(range_ok e \<longrightarrow> (\<exists>e'. add_year y e = Inr e' \<and> range_ok e')) \<and> add_year None e = Inr e"
  using add_year_Inr [of e y] by (simp add: add_year_def)

theorem add_year_preserves_range_ok_witness:
  "range_ok \<lparr>first_year = Some 2010, last_year = Some 2012\<rparr>
   \<and> add_year (Some 2015) \<lparr>first_year = Some 2010, last_year = Some 2012\<rparr>
       = Inr \<lparr>first_year = Some 2010, last_year = Some 2015\<rparr>
   \<and> range_ok \<lparr>first_year = Some 2010, last_year = Some 2015\<rparr>
   \<and> add_year None \<lparr>first_year = Some 2010, last_year = Some 2012\<rparr>
       = Inr \<lparr>first_year = Some 2010, last_year = Some 2012\<rparr>"
  using add_year_preserves_range_ok [of "\<lparr>first_year = Some 2010, last_year = Some 2012\<rparr>" "Some 2015"]
  by (simp add: range_ok_def add_year_def widen_def fill_unset_def)

section \<open>The worker loop: retries and the fatal ceiling\<close>

lemma failed_from_step:
  assumes "c < k" "k \<le> 10"
  shows "failed_from w (Suc c) k
           (tr\<lparr>calls := calls tr @ [w], rollbacks := rollbacks tr + 1,
               sleeps := sleeps tr @ [5 + min (Suc c) 55]\<rparr>) = failed_from w c k tr"
proof -
  have r: "replicate (k - c) w = w # replicate (k - Suc c) w"
    using assms by (cases "k - c") auto
  have u: "[Suc c ..< Suc k] = Suc c # [Suc (Suc c) ..< Suc k]"
    using assms by (simp add: upt_conv_Cons)
  have m: "min (Suc c) 55 = Suc c"
    using assms by simp
  have d: "k - c = Suc (k - Suc c)"
    using assms by simp
  show ?thesis
    unfolding failed_from_def r u m d by simp
qed

text \<open>Failures up to the ceiling: the loop raises at the eleventh.\<close>

lemma retry_loop_always_fails:
  "\<forall>n. c \<le> n \<and> n \<le> 10 \<longrightarrow> \<not> crawl w n \<Longrightarrow> c \<le> 10 \<Longrightarrow>
   retry_loop crawl w c tr =
     Inl (Exception ''Thread {} failed for more than 10 times.'',
          (failed_from w c 10 tr)\<lparr>calls := calls (failed_from w c 10 tr) @ [w],
                                  rollbacks := rollbacks (failed_from w c 10 tr) + 1\<rparr>)"
proof (induction crawl w c tr rule: retry_loop.induct)
  case (1 crawl w c tr)
  have nc: "\<not> crawl w c" using "1.prems" by simp
  show ?case
  proof (cases "c = 10")
    case True
    with nc show ?thesis
      by (subst retry_loop.simps) (simp add: Let_def failed_from_def)
  next
    case False
    with "1.prems" have lt: "c < 10" by simp
    let ?tr = "tr\<lparr>calls := calls tr @ [w], rollbacks := rollbacks tr + 1,
                  sleeps := sleeps tr @ [5 + min (Suc c) 55]\<rparr>"
    have ih: "retry_loop crawl w (Suc c) ?tr =
      Inl (Exception ''Thread {} failed for more than 10 times.'',
          (failed_from w (Suc c) 10 ?tr)\<lparr>calls := calls (failed_from w (Suc c) 10 ?tr) @ [w],
             rollbacks := rollbacks (failed_from w (Suc c) 10 ?tr) + 1\<rparr>)"
      using "1.IH" [OF refl nc refl refl] lt "1.prems" by (simp add: Let_def)
    have "retry_loop crawl w c tr = retry_loop crawl w (Suc c) ?tr"
      using nc lt by (subst retry_loop.simps) (simp add: Let_def)
    then show ?thesis
      using ih failed_from_step [of c 10 w tr] lt by simp
  qed
qed

text \<open>Failures, then a success at a call before the ceiling: the counter is 0 again.\<close>

lemma retry_loop_succeeds:
  "\<forall>n. c \<le> n \<and> n < k \<longrightarrow> \<not> crawl w n \<Longrightarrow> crawl w k \<Longrightarrow> c \<le> k \<Longrightarrow> k \<le> 10 \<Longrightarrow>
   retry_loop crawl w c tr =
     Inr (0, (failed_from w c k tr)\<lparr>calls := calls (failed_from w c k tr) @ [w]\<rparr>)"
proof (induction crawl w c tr rule: retry_loop.induct)
  case (1 crawl w c tr)
  show ?case
  proof (cases "c = k")
    case True
    with "1.prems" show ?thesis
      by (subst retry_loop.simps) (simp add: Let_def failed_from_def)
  next
    case False
    with "1.prems" have lt: "c < k" by simp
    have nc: "\<not> crawl w c" using "1.prems" lt by simp
    let ?tr = "tr\<lparr>calls := calls tr @ [w], rollbacks := rollbacks tr + 1,
                  sleeps := sleeps tr @ [5 + min (Suc c) 55]\<rparr>"
    have ih: "retry_loop crawl w (Suc c) ?tr =
       Inr (0, (failed_from w (Suc c) k ?tr)\<lparr>calls := calls (failed_from w (Suc c) k ?tr) @ [w]\<rparr>)"
      using "1.IH" [OF refl nc refl refl] lt "1.prems" by (simp add: Let_def)
    have "retry_loop crawl w c tr = retry_loop crawl w (Suc c) ?tr"
      using nc lt "1.prems" by (subst retry_loop.simps) (simp add: Let_def)
    then show ?thesis
      using ih failed_from_step [of c k w tr] lt "1.prems" by simp
  qed
qed

text \<open>
  C5. A crawl function that fails at every call for the work unit at the head of the queue
  makes the worker raise after exactly eleven calls for that unit (eleven rollbacks, ten
  sleeps of 6 to 15 seconds in between), and the queue the worker leaves behind is the
  rest of the queue: the unit is not put back. If instead the call after \<open>k \<le> 10\<close>
  failures succeeds, the inner loop ends with the counter at 0 and the worker goes on
  with the rest of the queue.
\<close>

theorem worker_fatal_ceiling:
  "((\<forall>n. n \<le> 10 \<longrightarrow> \<not> crawl w n) \<longrightarrow>
      run crawl (w # work_queue) tr =
        Inl (Exception ''Thread {} failed for more than 10 times.'', work_queue,
             tr\<lparr>calls := calls tr @ replicate 11 w,
                rollbacks := rollbacks tr + 11,
                sleeps := sleeps tr @ [6, 7, 8, 9, 10, 11, 12, 13, 14, 15]\<rparr>))
   \<and> (k \<le> 10 \<and> (\<forall>n. n < k \<longrightarrow> \<not> crawl w n) \<and> crawl w k \<longrightarrow>
        retry_loop crawl w 0 tr =
          Inr (0, tr\<lparr>calls := calls tr @ replicate (Suc k) w,
                     rollbacks := rollbacks tr + k,
                     sleeps := sleeps tr @ map (\<lambda>i. 5 + i) [1 ..< Suc k]\<rparr>)
        \<and> run crawl (w # work_queue) tr =
            run crawl work_queue
              (tr\<lparr>calls := calls tr @ replicate (Suc k) w,
                  rollbacks := rollbacks tr + k,
                  sleeps := sleeps tr @ map (\<lambda>i. 5 + i) [1 ..< Suc k]\<rparr>))"
proof -
  have ten: "map (\<lambda>i. 5 + i) [Suc 0 ..< Suc 10] = [6, 7, 8, 9, 10, 11, 12, 13, 14, 15::nat]"
    by (simp add: upt_conv_Cons)
  have fatal: "run crawl (w # work_queue) tr =
        Inl (Exception ''Thread {} failed for more than 10 times.'', work_queue,
             tr\<lparr>calls := calls tr @ replicate 11 w,
                rollbacks := rollbacks tr + 11,
                sleeps := sleeps tr @ [6, 7, 8, 9, 10, 11, 12, 13, 14, 15]\<rparr>)"
    if "\<forall>n. n \<le> 10 \<longrightarrow> \<not> crawl w n"
  proof -
    have r: "replicate 10 w @ [w] = replicate 11 w"
      by (simp add: numeral_eq_Suc replicate_append_same)
    show ?thesis
      using retry_loop_always_fails [of 0 crawl w tr] that ten r
      by (simp add: failed_from_def)
  qed
  have success: "retry_loop crawl w 0 tr =
          Inr (0, tr\<lparr>calls := calls tr @ replicate (Suc k) w,
                     rollbacks := rollbacks tr + k,
                     sleeps := sleeps tr @ map (\<lambda>i. 5 + i) [1 ..< Suc k]\<rparr>)"
    if "k \<le> 10" "\<forall>n. n < k \<longrightarrow> \<not> crawl w n" "crawl w k"
  proof -
    have r: "replicate k w @ [w] = replicate (Suc k) w"
      by (simp add: replicate_append_same)
    show ?thesis
      using retry_loop_succeeds [of 0 k crawl w tr] that r
      by (simp add: failed_from_def)
  qed
  show ?thesis
    using fatal success by simp
qed

theorem worker_fatal_ceiling_witness:
  "run (\<lambda>w n. w = (1::nat) \<and> (3::nat) \<le> n) [2, 1] \<lparr>calls = [], rollbacks = 0, sleeps = []\<rparr> =
       Inl (Exception ''Thread {} failed for more than 10 times.'', [1],
            \<lparr>calls = replicate 11 2, rollbacks = 11, sleeps = [6, 7, 8, 9, 10, 11, 12, 13, 14, 15]\<rparr>)
   \<and> retry_loop (\<lambda>w n. w = (1::nat) \<and> (3::nat) \<le> n) 1 0 \<lparr>calls = [], rollbacks = 0, sleeps = []\<rparr> =
       Inr (0, \<lparr>calls = [1, 1, 1, 1], rollbacks = 3, sleeps = [6, 7, 8]\<rparr>)"
proof -
  have always: "\<forall>n::nat. n \<le> 10 \<longrightarrow> \<not> (\<lambda>w n. w = (1::nat) \<and> (3::nat) \<le> n) 2 n"
    by simp
  have later: "(3::nat) \<le> 10 \<and> (\<forall>n::nat. n < 3 \<longrightarrow> \<not> (\<lambda>w n. w = (1::nat) \<and> (3::nat) \<le> n) 1 n)
      \<and> (\<lambda>w n. w = (1::nat) \<and> (3::nat) \<le> n) 1 3"
    by simp
  show ?thesis
    using always later
      worker_fatal_ceiling [of "\<lambda>w n. w = (1::nat) \<and> (3::nat) \<le> n" 2 "[1]"
        "\<lparr>calls = [], rollbacks = 0, sleeps = []\<rparr>" 0]
      worker_fatal_ceiling [of "\<lambda>w n. w = (1::nat) \<and> (3::nat) \<le> n" 1 "[]"
        "\<lparr>calls = [], rollbacks = 0, sleeps = []\<rparr>" 3]
    by (simp add: upt_conv_Cons numeral_3_eq_3)
qed

section \<open>Queries: the first matching row\<close>

lemma first_index_Some:
  "first_index P xs = Some i \<Longrightarrow> i < length xs \<and> P (xs ! i) \<and> (\<forall>j<i. \<not> P (xs ! j))"
proof (induction xs arbitrary: i)
  case Nil
  then show ?case by simp
next
  case (Cons x xs)
  show ?case
  proof (cases "P x")
    case True
    with Cons.prems show ?thesis by simp
  next
    case False
    with Cons.prems obtain k where k: "first_index P xs = Some k" "i = Suc k"
      by auto
    from Cons.IH [OF k(1)] False k(2) show ?thesis
      by (auto simp: less_Suc_eq_0_disj)
  qed
qed

lemma first_index_None: "first_index P xs = None \<longleftrightarrow> (\<forall>x\<in>set xs. \<not> P x)"
  by (induction xs) auto



section \<open>Classes: conflicts\<close>

text \<open>
  C3. Let the lookup of \<open>add_class\<close> find the stored class \<open>i\<close> for the candidate's key.
  If its name is \<open>old\<close>, not null, and the candidate's name differs, \<open>add_class\<close> raises
  an exception whose message holds the old and the new name, and the controller (session
  and committed rows) is as before. If the names agree and the stored abbreviation \<open>a\<close>
  and the candidate's \<open>b\<close> are both not null and differ, it raises with a message that
  holds \<open>a\<close> and \<open>b\<close>, again with the controller as before.
\<close>

theorem add_class_conflict:
  assumes "first_index (class_key candidate) (classes (session s)) = Some i"
  shows
   "(class_name (classes (session s) ! i) = Some old \<and> clc_name candidate \<noteq> Some old \<longrightarrow>
       add_class accepts candidate s =
         Inl (Exception (''Class name change attempt. '' @ old @ '' to '' @ str_opt (clc_name candidate)
                          @ '' (iid '' @ str_int (clc_id candidate) @ '')''), s))
    \<and> (class_name (classes (session s) ! i) = clc_name candidate
        \<and> class_abbreviation (classes (session s) ! i) = Some a
        \<and> clc_abbreviation candidate = Some b \<and> a \<noteq> b \<longrightarrow>
       add_class accepts candidate s =
         Inl (Exception (''Class abbreviation change attempt. '' @ a @ '' to '' @ b
                          @ '' (iid '' @ str_int (clc_id candidate) @ '')''), s))"
  using assms
  by (simp add: add_class_def Let_def name_change_msg_def abbreviation_change_msg_def str_opt_def)

theorem add_class_conflict_witness:
  "add_class schema_constraints
     \<lparr>clc_id = 7, clc_name = Some ''Algebra'', clc_department = 3,
      clc_abbreviation = Some ''ALG'', clc_ects = Some 12\<rparr>
     (Controller (empty_tables\<lparr>classes :=
        [\<lparr>class_internal_id = 7, class_name = Some ''Analysis'', class_department = 3,
          class_abbreviation = Some ''AN'', class_ects = Some 12\<rparr>]\<rparr>) False)
   = Inl (Exception ''Class name change attempt. Analysis to Algebra (iid 7)'',
          Controller (empty_tables\<lparr>classes :=
        [\<lparr>class_internal_id = 7, class_name = Some ''Analysis'', class_department = 3,
          class_abbreviation = Some ''AN'', class_ects = Some 12\<rparr>]\<rparr>) False)
   \<and> add_class schema_constraints
     \<lparr>clc_id = 7, clc_name = Some ''Analysis'', clc_department = 3,
      clc_abbreviation = Some ''ALG'', clc_ects = Some 12\<rparr>
     (Controller (empty_tables\<lparr>classes :=
        [\<lparr>class_internal_id = 7, class_name = Some ''Analysis'', class_department = 3,
          class_abbreviation = Some ''AN'', class_ects = Some 12\<rparr>]\<rparr>) False)
   = Inl (Exception ''Class abbreviation change attempt. AN to ALG (iid 7)'',
          Controller (empty_tables\<lparr>classes :=
        [\<lparr>class_internal_id = 7, class_name = Some ''Analysis'', class_department = 3,
          class_abbreviation = Some ''AN'', class_ects = Some 12\<rparr>]\<rparr>) False)"
proof -
  let ?row = "\<lparr>class_internal_id = 7, class_name = Some ''Analysis'', class_department = 3,
          class_abbreviation = Some ''AN'', class_ects = Some 12\<rparr>"
  let ?s = "Controller (empty_tables\<lparr>classes := [?row]\<rparr>) False"
  let ?c1 = "\<lparr>clc_id = 7, clc_name = Some ''Algebra'', clc_department = 3,
      clc_abbreviation = Some ''ALG'', clc_ects = Some 12\<rparr>"
  let ?c2 = "\<lparr>clc_id = 7, clc_name = Some ''Analysis'', clc_department = 3,
      clc_abbreviation = Some ''ALG'', clc_ects = Some 12\<rparr>"
  have found1: "first_index (class_key ?c1) (classes (session ?s)) = Some 0"
    by (simp add: Controller_def empty_tables_def class_key_def)
  have found2: "first_index (class_key ?c2) (classes (session ?s)) = Some 0"
    by (simp add: Controller_def empty_tables_def class_key_def)
  have row: "classes (session ?s) ! 0 = ?row"
    by (simp add: Controller_def empty_tables_def)
  have seven: "str_int 7 = ''7''"
    by (simp add: str_int_def str_nat.simps digit_char_def)
  show ?thesis
    using add_class_conflict [OF found1, of "''Analysis''" schema_constraints "''AN''" "''ALG''"]
          add_class_conflict [OF found2, of "''Analysis''" schema_constraints "''AN''" "''ALG''"]
    by (simp add: row seven str_opt_def)
qed

section \<open>Courses: lookup by abbreviation\<close>

text \<open>
  C8, evaluated. A controller without the cache (the crawler's) over a store whose only
  course has the abbreviation MIEI: \<open>get_course\<close> with that abbreviation and the year 2010
  returns \<open>None\<close>, since the query filters on \<open>internal_id = None\<close>. A controller with
  the cache over a store with two courses of that abbreviation: with the year 2010 the
  call raises \<open>AttributeError\<close> at \<open>match.initial_year\<close>, where the course of 2000 to 2020
  was to be returned. With the cache, one course of that abbreviation is returned without
  a year, and two without a year raise the usage error.
\<close>

theorem get_course_by_abbreviation_evaluated:
  "get_course
     (Controller (empty_tables\<lparr>courses :=
        [\<lparr>first_year = Some 2000, last_year = Some 2020, course_internal_id = Some 1,
          course_name = Some ''Informatica'', course_abbreviation = Some ''MIEI'',
          course_degree = None, course_institution = Some 1\<rparr>]\<rparr>) False)
     None (Some ''MIEI'') (Some 2010) = Inr None
   \<and> get_course
     (Controller (empty_tables\<lparr>courses :=
        [\<lparr>first_year = Some 2000, last_year = Some 2020, course_internal_id = Some 1,
          course_name = Some ''Informatica'', course_abbreviation = Some ''MIEI'',
          course_degree = None, course_institution = Some 1\<rparr>,
         \<lparr>first_year = Some 1990, last_year = Some 1999, course_internal_id = Some 2,
          course_name = Some ''Engenharia Informatica'', course_abbreviation = Some ''MIEI'',
          course_degree = None, course_institution = Some 1\<rparr>]\<rparr>) True)
     None (Some ''MIEI'') (Some 2010) = Inl (AttributeError ''initial_year'')
   \<and> get_course
     (Controller (empty_tables\<lparr>courses :=
        [\<lparr>first_year = Some 2000, last_year = Some 2020, course_internal_id = Some 1,
          course_name = Some ''Informatica'', course_abbreviation = Some ''MIEI'',
          course_degree = None, course_institution = Some 1\<rparr>]\<rparr>) True)
     None (Some ''MIEI'') None = Inr (Some 0)
   \<and> get_course
     (Controller (empty_tables\<lparr>courses :=
        [\<lparr>first_year = Some 2000, last_year = Some 2020, course_internal_id = Some 1,
          course_name = Some ''Informatica'', course_abbreviation = Some ''MIEI'',
          course_degree = None, course_institution = Some 1\<rparr>,
         \<lparr>first_year = Some 1990, last_year = Some 1999, course_internal_id = Some 2,
          course_name = Some ''Engenharia Informatica'', course_abbreviation = Some ''MIEI'',
          course_degree = None, course_institution = Some 1\<rparr>]\<rparr>) True)
     None (Some ''MIEI'') None = Inl (Exception ''Multiple matches. Year unspecified'')"
  by (simp add: get_course_def Controller_def empty_tables_def pick_match_def initial_year_def
      load_courses_def load_rooms_def load_departments_def load_institutions_def
      dict_set_def dict_get_def upt_conv_Cons)

section \<open>Merging temporal ranges in the batch methods\<close>

text \<open>
  The bound updates of \<open>add_institutions\<close> and \<open>add_departments\<close> never narrow a range
  that is set, and take the candidate's bounds when both are unset.
\<close>

lemma merge_years_never_narrow:
  assumes "first_year r = Some a" "last_year r = Some b"
  shows "\<exists>a' b'. first_year (merge_last_year cl (merge_first_year cf r)) = Some a'
           \<and> last_year (merge_last_year cl (merge_first_year cf r)) = Some b'
           \<and> a' \<le> a \<and> b \<le> b'"
  using assms
  by (cases cf; cases cl) (auto simp: merge_first_year_def merge_last_year_def)

lemma merge_years_unset:
  assumes "first_year r = None" "last_year r = None"
  shows "first_year (merge_last_year cl (merge_first_year cf r)) = cf
       \<and> last_year (merge_last_year cl (merge_first_year cf r)) = cl"
  using assms
  by (simp add: merge_first_year_def merge_last_year_def)

lemma update_institution_never_narrows:
  assumes "first_year r = Some a" "last_year r = Some b"
  shows "\<exists>a' b'. first_year (update_institution c r) = Some a'
           \<and> last_year (update_institution c r) = Some b' \<and> a' \<le> a \<and> b \<le> b'"
  unfolding update_institution_def Let_def
  by (rule merge_years_never_narrow) (simp_all add: assms)

lemma update_institution_unset:
  assumes "first_year r = None" "last_year r = None"
  shows "first_year (update_institution c r) = first_year c
       \<and> last_year (update_institution c r) = last_year c"
  unfolding update_institution_def Let_def
  by (rule merge_years_unset) (simp_all add: assms)

lemma update_department_never_narrows:
  assumes "first_year r = Some a" "last_year r = Some b"
  shows "\<exists>a' b'. first_year (update_department c r) = Some a'
           \<and> last_year (update_department c r) = Some b' \<and> a' \<le> a \<and> b \<le> b'"
  unfolding update_department_def Let_def
  by (rule merge_years_never_narrow) (simp_all add: assms)

lemma update_department_unset:
  assumes "first_year r = None" "last_year r = None"
  shows "first_year (update_department c r) = first_year c
       \<and> last_year (update_department c r) = last_year c"
  unfolding update_department_def Let_def
  by (rule merge_years_unset) (simp_all add: assms)

text \<open>
  \<open>add_courses\<close> never moves \<open>first_year\<close> up and takes the candidate's bounds when both
  are unset; its test for \<open>last_year\<close> is the one for \<open>first_year\<close>, so a set \<open>last_year\<close>
  never moves up and moves down whenever the candidate's is smaller.
\<close>

lemma update_course_first_year:
  assumes "first_year r = Some a"
  shows "\<exists>a'. first_year (fst (update_course c r)) = Some a' \<and> a' \<le> a"
  using assms
  by (cases "first_year c")
     (auto simp: update_course_def course_first_year_moves_def course_last_year_moves_def
        Let_def split: option.splits)

lemma update_course_unset:
  assumes "first_year r = None" "last_year r = None"
  shows "first_year (fst (update_course c r)) = first_year c
       \<and> last_year (fst (update_course c r)) = last_year c"
  using assms
  by (simp add: update_course_def course_first_year_moves_def course_last_year_moves_def Let_def)

lemma update_course_last_year:
  assumes "last_year r = Some b"
  shows "\<exists>b'. last_year (fst (update_course c r)) = Some b' \<and> b' \<le> b"
  using assms
  by (cases "last_year c")
     (auto simp: update_course_def course_first_year_moves_def course_last_year_moves_def
        Let_def split: option.splits)

text \<open>
  C1, evaluated for \<open>add_courses\<close>. The stored course has the range [2010, 2015]; the
  candidate, with the same identifier, institution and name, has the range [2010, 2012].
  After \<open>add_courses\<close> the stored range is [2010, 2012]: \<open>last_year\<close> went from 2015 down
  to 2012, and the change is committed.
\<close>

theorem add_courses_narrows_last_year:
  "add_courses schema_constraints
     [\<lparr>first_year = Some 2010, last_year = Some 2012, cand_id = 1,
       cc_name = Some ''Informatica'', cc_abbreviation = None, cc_degree = None,
       cc_institution = Some 1\<rparr>]
     (Controller (empty_tables\<lparr>courses :=
        [\<lparr>first_year = Some 2010, last_year = Some 2015, course_internal_id = Some 1,
          course_name = Some ''Informatica'', course_abbreviation = Some ''MIEI'',
          course_degree = None, course_institution = Some 1\<rparr>]\<rparr>) False)
   = Inr ((), Controller (empty_tables\<lparr>courses :=
        [\<lparr>first_year = Some 2010, last_year = Some 2012, course_internal_id = Some 1,
          course_name = Some ''Informatica'', course_abbreviation = Some ''MIEI'',
          course_degree = None, course_institution = Some 1\<rparr>]\<rparr>) False)"
  by (simp add: add_courses_def reconcile_course_def Controller_def empty_tables_def course_key_def update_course_def
      course_first_year_moves_def course_last_year_moves_def commit_def schema_constraints_def
      pk_departments_def un_room_def un_class_instance_def un_admission_def un_turn_instance_def
      admission_unique_key_def)

section \<open>Turn instances: the incremental synchronisation\<close>

lemma first_index_find_Some:
  "first_index P xs = Some k \<Longrightarrow> find P xs = Some (xs ! k)"
proof (induction xs arbitrary: k)
  case Nil
  then show ?case by simp
next
  case (Cons x xs)
  then show ?case
    by (cases "P x") auto
qed

lemma first_index_find_None:
  "first_index P xs = None \<Longrightarrow> find P xs = None"
  by (induction xs) (auto split: if_splits)

lemma find_remove_at:
  "k < length xs \<Longrightarrow> \<not> P (xs ! k) \<Longrightarrow> find P (remove_at k xs) = find P xs"
proof (induction xs arbitrary: k)
  case Nil
  then show ?case by simp
next
  case (Cons x xs)
  then show ?case
    by (cases k) (auto simp: remove_at_def)
qed

lemma set_remove_at: "set (remove_at k xs) \<subseteq> set xs"
  unfolding remove_at_def by (auto dest: in_set_takeD in_set_dropD)

lemma in_remove_at: "x \<in> set xs \<Longrightarrow> k < length xs \<Longrightarrow> x \<noteq> xs ! k \<Longrightarrow> x \<in> set (remove_at k xs)"
proof (induction xs arbitrary: k)
  case Nil
  then show ?case by simp
next
  case (Cons y ys)
  then show ?case
    by (cases k) (auto simp: remove_at_def)
qed

lemma sync_other:
  "ti_turn e \<noteq> t \<Longrightarrow>
   sync_turn_instances t (e # rest) insts =
     (e # fst (sync_turn_instances t rest insts), snd (sync_turn_instances t rest insts))"
  by (simp add: Let_def split: prod.splits)

lemma sync_unmatched:
  "ti_turn e = t \<Longrightarrow> first_index (same_slot e) insts = None \<Longrightarrow>
   sync_turn_instances t (e # rest) insts = sync_turn_instances t rest insts"
  by simp

lemma sync_matched:
  "ti_turn e = t \<Longrightarrow> first_index (same_slot e) insts = Some k \<Longrightarrow>
   sync_turn_instances t (e # rest) insts =
     (e\<lparr>ti_room := tic_room (insts ! k)\<rparr> # fst (sync_turn_instances t rest (remove_at k insts)),
      snd (sync_turn_instances t rest (remove_at k insts)))"
  by (simp add: Let_def split: prod.splits)

lemma sync_other_turns:
  "filter (\<lambda>r. ti_turn r \<noteq> t) (fst (sync_turn_instances t rows insts)) = filter (\<lambda>r. ti_turn r \<noteq> t) rows"
proof (induction rows arbitrary: insts)
  case Nil
  show ?case by simp
next
  case (Cons e rest)
  show ?case
  proof (cases "ti_turn e = t")
    case False
    then show ?thesis using Cons.IH by (simp add: sync_other del: sync_turn_instances.simps)
  next
    case True
    show ?thesis
    proof (cases "first_index (same_slot e) insts")
      case None
      with True Cons.IH show ?thesis by (simp add: sync_unmatched del: sync_turn_instances.simps)
    next
      case (Some k)
      with True Cons.IH show ?thesis by (simp add: sync_matched del: sync_turn_instances.simps)
    qed
  qed
qed

lemma sync_left_subset:
  "set (snd (sync_turn_instances t rows insts)) \<subseteq> set insts"
proof (induction rows arbitrary: insts)
  case Nil
  show ?case by simp
next
  case (Cons e rest)
  show ?case
  proof (cases "ti_turn e = t")
    case False
    then show ?thesis using Cons.IH by (simp add: sync_other del: sync_turn_instances.simps)
  next
    case True
    show ?thesis
    proof (cases "first_index (same_slot e) insts")
      case None
      with True Cons.IH show ?thesis by (simp add: sync_unmatched del: sync_turn_instances.simps)
    next
      case (Some k)
      with True Cons.IH [of "remove_at k insts"] set_remove_at [of k insts] show ?thesis
        by (auto simp add: sync_matched simp del: sync_turn_instances.simps)
    qed
  qed
qed

lemma sync_left_unmatched:
  "c \<in> set insts \<Longrightarrow> \<forall>e\<in>set rows. ti_turn e = t \<longrightarrow> \<not> same_slot e c \<Longrightarrow>
   c \<in> set (snd (sync_turn_instances t rows insts))"
proof (induction rows arbitrary: insts)
  case Nil
  then show ?case by simp
next
  case (Cons e rest)
  show ?case
  proof (cases "ti_turn e = t")
    case False
    then show ?thesis using Cons by (simp add: sync_other del: sync_turn_instances.simps)
  next
    case True
    show ?thesis
    proof (cases "first_index (same_slot e) insts")
      case None
      with True Cons show ?thesis by (simp add: sync_unmatched del: sync_turn_instances.simps)
    next
      case (Some k)
      from first_index_Some [OF Some] have k: "k < length insts" "same_slot e (insts ! k)"
        by simp_all
      from Cons.prems True have "\<not> same_slot e c" by simp
      with k have "c \<noteq> insts ! k" by auto
      with Cons.prems k have "c \<in> set (remove_at k insts)"
        by (simp add: in_remove_at)
      with Cons.IH [of "remove_at k insts"] Cons.prems have "c \<in> set (snd (sync_turn_instances t rest (remove_at k insts)))"
        by simp
      with True Some show ?thesis
        by (simp add: sync_matched del: sync_turn_instances.simps)
    qed
  qed
qed

lemma map_filter_agree:
  "\<forall>x\<in>set xs. f x = g x \<Longrightarrow> List.map_filter f xs = List.map_filter g xs"
  by (induction xs) (auto split: option.splits)

lemma sync_kept:
  "distinct (map slot_of (filter (\<lambda>r. ti_turn r = t) rows)) \<Longrightarrow>
   filter (\<lambda>r. ti_turn r = t) (fst (sync_turn_instances t rows insts)) =
     List.map_filter (matched insts) (filter (\<lambda>r. ti_turn r = t) rows)"
proof (induction rows arbitrary: insts)
  case Nil
  show ?case by simp
next
  case (Cons e rest)
  show ?case
  proof (cases "ti_turn e = t")
    case False
    then show ?thesis using Cons by (simp add: sync_other del: sync_turn_instances.simps)
  next
    case True
    from Cons.prems True have d: "distinct (map slot_of (filter (\<lambda>r. ti_turn r = t) rest))"
      and notin: "slot_of e \<notin> slot_of ` set (filter (\<lambda>r. ti_turn r = t) rest)"
      by simp_all
    from notin have fresh: "\<forall>r\<in>set rest. ti_turn r = t \<longrightarrow> slot_of r \<noteq> slot_of e"
    proof (intro ballI impI)
      fix r assume "r \<in> set rest" "ti_turn r = t"
      then have "slot_of r \<in> slot_of ` set (filter (\<lambda>r. ti_turn r = t) rest)"
        by simp
      with notin show "slot_of r \<noteq> slot_of e"
        by metis
    qed
    show ?thesis
    proof (cases "first_index (same_slot e) insts")
      case None
      then have "matched insts e = None"
        by (simp add: matched_def first_index_find_None)
      with True None Cons.IH [OF d] show ?thesis
        by (simp add: sync_unmatched del: sync_turn_instances.simps)
    next
      case (Some k)
      from first_index_Some [OF Some] have k: "k < length insts" "same_slot e (insts ! k)"
        by simp_all
      have m: "matched insts e = Some (e\<lparr>ti_room := tic_room (insts ! k)\<rparr>)"
        by (simp add: matched_def first_index_find_Some [OF Some])
      have same: "matched (remove_at k insts) r = matched insts r"
        if "r \<in> set (filter (\<lambda>r. ti_turn r = t) rest)" for r
      proof -
        from that fresh have "slot_of r \<noteq> slot_of e" by simp
        with k(2) have "\<not> same_slot r (insts ! k)"
          by (auto simp: same_slot_def slot_of_def)
        with k(1) show ?thesis
          by (simp add: matched_def find_remove_at)
      qed
      have "List.map_filter (matched (remove_at k insts)) (filter (\<lambda>r. ti_turn r = t) rest)
          = List.map_filter (matched insts) (filter (\<lambda>r. ti_turn r = t) rest)"
        by (rule map_filter_agree) (simp add: same)
      with True Some m Cons.IH [OF d, of "remove_at k insts"] show ?thesis
        by (simp add: sync_matched del: sync_turn_instances.simps)
    qed
  qed
qed

lemma common_turn_Some:
  "\<forall>c\<in>set instances. tic_turn c = t \<Longrightarrow> common_turn instances (Some t) = Inr (Some t)"
  by (induction instances) auto

lemma common_turn_all:
  "instances \<noteq> [] \<Longrightarrow> \<forall>c\<in>set instances. tic_turn c = t \<Longrightarrow> common_turn instances None = Inr (Some t)"
  by (cases instances) (auto simp: common_turn_Some)

lemma add_turn_instances_incremental_eq:
  assumes "instances \<noteq> []" "\<forall>c\<in>set instances. tic_turn c = t"
  shows "add_turn_instances accepts instances False s =
     Inr ((), s\<lparr>session := (session s)\<lparr>turn_instances :=
         fst (sync_turn_instances t (turn_instances (session s)) instances)
         @ map (new_turn_instance t) (snd (sync_turn_instances t (turn_instances (session s)) instances))\<rparr>\<rparr>)"
  using common_turn_all [OF assms]
  by (simp add: add_turn_instances_def split: prod.splits)

lemma kept_row:
  assumes d: "distinct (map slot_of (filter (\<lambda>r. ti_turn r = t) rows))"
    and e: "e \<in> set rows" "ti_turn e = t"
    and f: "find (same_slot e) insts = Some c"
  shows "e\<lparr>ti_room := tic_room c\<rparr> \<in> set (fst (sync_turn_instances t rows insts))"
proof -
  from e have "e \<in> set (filter (\<lambda>r. ti_turn r = t) rows)" by simp
  moreover from f have "matched insts e = Some (e\<lparr>ti_room := tic_room c\<rparr>)"
    by (simp add: matched_def)
  ultimately have "e\<lparr>ti_room := tic_room c\<rparr> \<in> set (List.map_filter (matched insts) (filter (\<lambda>r. ti_turn r = t) rows))"
    unfolding List.map_filter_def by force
  then have "e\<lparr>ti_room := tic_room c\<rparr> \<in> set (filter (\<lambda>r. ti_turn r = t) (fst (sync_turn_instances t rows insts)))"
    by (simp add: sync_kept [OF d])
  then show ?thesis by simp
qed

lemma deleted_row:
  assumes d: "distinct (map slot_of (filter (\<lambda>r. ti_turn r = t) rows))"
    and e: "ti_turn e = t"
    and f: "find (same_slot e) insts = None"
  shows "e \<notin> set (fst (sync_turn_instances t rows insts) @ map (new_turn_instance t) (snd (sync_turn_instances t rows insts)))"
proof
  assume "e \<in> set (fst (sync_turn_instances t rows insts) @ map (new_turn_instance t) (snd (sync_turn_instances t rows insts)))"
  then consider (kept) "e \<in> set (fst (sync_turn_instances t rows insts))"
    | (new) "e \<in> set (map (new_turn_instance t) (snd (sync_turn_instances t rows insts)))"
    by auto
  then show False
  proof cases
    case kept
    with e have "e \<in> set (filter (\<lambda>r. ti_turn r = t) (fst (sync_turn_instances t rows insts)))"
      by simp
    then have "e \<in> set (List.map_filter (matched insts) (filter (\<lambda>r. ti_turn r = t) rows))"
      by (simp add: sync_kept [OF d])
    then obtain e' where "matched insts e' = Some e"
      unfolding List.map_filter_def by auto
    then obtain c where c: "find (same_slot e') insts = Some c" "e = e'\<lparr>ti_room := tic_room c\<rparr>"
      by (auto simp: matched_def)
    from c(1) have "same_slot e' c" "c \<in> set insts"
      by (auto simp: find_Some_iff)
    with c(2) have "same_slot e c" "c \<in> set insts"
      by (simp_all add: same_slot_def)
    with f show False
      by (simp add: find_None_iff)
  next
    case new
    then obtain c where c: "c \<in> set (snd (sync_turn_instances t rows insts))" "e = new_turn_instance t c"
      by auto
    from c(1) sync_left_subset [of t rows insts] have "c \<in> set insts" by auto
    moreover from c(2) have "same_slot e c"
      by (simp add: same_slot_def new_turn_instance_def)
    ultimately show False using f
      by (simp add: find_None_iff)
  qed
qed

lemma same_slot_iff: "same_slot e c \<longleftrightarrow> slot_of e = cand_slot c"
  by (auto simp: same_slot_def slot_of_def cand_slot_def)

lemma distinct_remove_at: "distinct (map g xs) \<Longrightarrow> distinct (map g (remove_at k xs))"
proof (induction xs arbitrary: k)
  case Nil
  then show ?case by (simp add: remove_at_def)
next
  case (Cons x xs)
  show ?case
  proof (cases k)
    case 0
    with Cons.prems show ?thesis by (simp add: remove_at_def)
  next
    case (Suc j)
    from Cons.prems have d: "distinct (map g xs)" and x: "g x \<notin> g ` set xs" by simp_all
    have "set (remove_at j xs) \<subseteq> set xs" by (rule set_remove_at)
    with x have "g x \<notin> g ` set (remove_at j xs)" by auto
    moreover have "remove_at (Suc j) (x # xs) = x # remove_at j xs" by (simp add: remove_at_def)
    ultimately show ?thesis using Cons.IH [OF d, of j] Suc by simp
  qed
qed

lemma filter_remove_at:
  "distinct (map g xs) \<Longrightarrow> k < length xs \<Longrightarrow> filter (\<lambda>c. g c \<noteq> g (xs ! k)) xs = remove_at k xs"
proof (induction xs arbitrary: k)
  case Nil
  then show ?case by simp
next
  case (Cons x xs)
  show ?case
  proof (cases k)
    case 0
    from Cons.prems have "g x \<notin> g ` set xs" by simp
    then have "\<forall>c\<in>set xs. g c \<noteq> g x" by (metis imageI)
    then have "filter (\<lambda>c. g c \<noteq> g x) xs = xs" by simp
    with 0 show ?thesis by (simp add: remove_at_def)
  next
    case (Suc j)
    with Cons.prems have j: "j < length xs" and d: "distinct (map g xs)" by simp_all
    from Cons.prems have "g x \<notin> g ` set xs" by simp
    with j have "g x \<noteq> g (xs ! j)" by (metis imageI nth_mem)
    with Cons.IH [OF d j] Suc show ?thesis by (simp add: remove_at_def)
  qed
qed

lemma sync_left_exact:
  "distinct (map cand_slot insts) \<Longrightarrow>
   snd (sync_turn_instances t rows insts) =
     filter (\<lambda>c. \<forall>e\<in>set rows. ti_turn e = t \<longrightarrow> \<not> same_slot e c) insts"
proof (induction rows arbitrary: insts)
  case Nil
  show ?case by simp
next
  case (Cons e rest)
  show ?case
  proof (cases "ti_turn e = t")
    case False
    then show ?thesis using Cons by (simp add: sync_other del: sync_turn_instances.simps)
  next
    case True
    show ?thesis
    proof (cases "first_index (same_slot e) insts")
      case None
      then have "\<forall>c\<in>set insts. \<not> same_slot e c" by (simp add: first_index_None)
      then have "filter (\<lambda>c. \<forall>e'\<in>set (e # rest). ti_turn e' = t \<longrightarrow> \<not> same_slot e' c) insts
          = filter (\<lambda>c. \<forall>e'\<in>set rest. ti_turn e' = t \<longrightarrow> \<not> same_slot e' c) insts"
        by (intro filter_cong) auto
      with True None Cons.IH [OF Cons.prems] show ?thesis
        by (simp add: sync_unmatched del: sync_turn_instances.simps)
    next
      case (Some k)
      from first_index_Some [OF Some] have k: "k < length insts" "same_slot e (insts ! k)"
        by simp_all
      have rem: "filter (\<lambda>c. \<not> same_slot e c) insts = remove_at k insts"
      proof -
        have "filter (\<lambda>c. cand_slot c \<noteq> cand_slot (insts ! k)) insts = remove_at k insts"
          using Cons.prems k(1) by (rule filter_remove_at)
        moreover have "(\<lambda>c. \<not> same_slot e c) = (\<lambda>c. cand_slot c \<noteq> cand_slot (insts ! k))"
          using k(2) by (auto simp: same_slot_iff)
        ultimately show ?thesis by simp
      qed
      have "filter (\<lambda>c. \<forall>e'\<in>set (e # rest). ti_turn e' = t \<longrightarrow> \<not> same_slot e' c) insts
          = filter (\<lambda>c. \<forall>e'\<in>set rest. ti_turn e' = t \<longrightarrow> \<not> same_slot e' c)
              (filter (\<lambda>c. \<not> same_slot e c) insts)"
        using True by (simp add: conj_commute)
      also have "\<dots> = snd (sync_turn_instances t rest (remove_at k insts))"
        unfolding rem using Cons.IH [OF distinct_remove_at [OF Cons.prems]] by simp
      finally show ?thesis using True Some
        by (simp add: sync_matched del: sync_turn_instances.simps)
    qed
  qed
qed

text \<open>
  C9, amended. Let the instances passed to \<open>add_turn_instances\<close>, not destructive, be a
  non-empty list of instances of the turn \<open>t\<close>, and let the stored instances of \<open>t\<close> have
  distinct time slots (the schema's constraint \<open>un_turn_instance\<close> gives that). Then the
  call returns; it does not commit, so the committed rows are as before; and in the
  session afterwards: a stored instance of \<open>t\<close> that matches an instance passed in on
  start, end and weekday is there as the same row, its identifier kept, with the room of
  the first such instance; a stored instance of \<open>t\<close> that matches none is gone; for
  every instance passed in that matches no stored instance of \<open>t\<close> there is a new row,
  without an identifier yet; the rows of other turns are as before; and when the instances
  passed in have distinct time slots, the rows of \<open>t\<close> are exactly the matched rows, in
  their order, followed by the new rows. With an empty list the call returns at once and
  changes nothing. The example: from Monday 9:00 to 11:00 in room 10 (row 1) and Wednesday
  9:00 to 11:00 in room 10 (row 2), with the instances Monday 9:00 to 11:00 in room 11 and
  Friday 14:00 to 16:00 in room 10, the session holds row 1 in room 11 and a new row for
  Friday in room 10 (times in minutes, weekdays from Monday = 0).
\<close>

theorem add_turn_instances_incremental:
  "(instances \<noteq> [] \<and> (\<forall>c\<in>set instances. tic_turn c = t)
     \<and> distinct (map slot_of (filter (\<lambda>r. ti_turn r = t) (turn_instances (session s)))) \<longrightarrow>
    (\<exists>s'. add_turn_instances accepts instances False s = Inr ((), s')
      \<and> committed s' = committed s
      \<and> (\<forall>e\<in>set (turn_instances (session s)). ti_turn e = t \<longrightarrow>
           (case find (same_slot e) instances of
              Some c \<Rightarrow> e\<lparr>ti_room := tic_room c\<rparr> \<in> set (turn_instances (session s'))
            | None \<Rightarrow> e \<notin> set (turn_instances (session s'))))
      \<and> (\<forall>c\<in>set instances.
            (\<forall>e\<in>set (turn_instances (session s)). ti_turn e = t \<longrightarrow> \<not> same_slot e c) \<longrightarrow>
            new_turn_instance t c \<in> set (turn_instances (session s')))
      \<and> filter (\<lambda>r. ti_turn r \<noteq> t) (turn_instances (session s'))
          = filter (\<lambda>r. ti_turn r \<noteq> t) (turn_instances (session s))
      \<and> (distinct (map cand_slot instances) \<longrightarrow>
           filter (\<lambda>r. ti_turn r = t) (turn_instances (session s'))
           = List.map_filter (matched instances) (filter (\<lambda>r. ti_turn r = t) (turn_instances (session s)))
             @ map (new_turn_instance t)
                 (filter (\<lambda>c. \<forall>e\<in>set (turn_instances (session s)). ti_turn e = t \<longrightarrow> \<not> same_slot e c)
                    instances))))
   \<and> add_turn_instances accepts [] False s = Inr ((), s)
   \<and> add_turn_instances accepts
       [\<lparr>tic_turn = 1, tic_start = 540, tic_end = 660, tic_weekday = 0, tic_room = Some 11\<rparr>,
        \<lparr>tic_turn = 1, tic_start = 840, tic_end = 960, tic_weekday = 4, tic_room = Some 10\<rparr>]
       False
       (Controller (empty_tables\<lparr>turn_instances :=
          [\<lparr>ti_id = Some 1, ti_turn = 1, ti_start = 540, ti_end = 660, ti_room = Some 10, ti_weekday = 0\<rparr>,
           \<lparr>ti_id = Some 2, ti_turn = 1, ti_start = 540, ti_end = 660, ti_room = Some 10, ti_weekday = 2\<rparr>]\<rparr>) False)
     = Inr ((), (Controller (empty_tables\<lparr>turn_instances :=
          [\<lparr>ti_id = Some 1, ti_turn = 1, ti_start = 540, ti_end = 660, ti_room = Some 10, ti_weekday = 0\<rparr>,
           \<lparr>ti_id = Some 2, ti_turn = 1, ti_start = 540, ti_end = 660, ti_room = Some 10, ti_weekday = 2\<rparr>]\<rparr>) False)
         \<lparr>session := empty_tables\<lparr>turn_instances :=
          [\<lparr>ti_id = Some 1, ti_turn = 1, ti_start = 540, ti_end = 660, ti_room = Some 11, ti_weekday = 0\<rparr>,
           \<lparr>ti_id = None, ti_turn = 1, ti_start = 840, ti_end = 960, ti_room = Some 10, ti_weekday = 4\<rparr>]\<rparr>\<rparr>)"
proof (intro conjI impI)
  assume h: "instances \<noteq> [] \<and> (\<forall>c\<in>set instances. tic_turn c = t)
     \<and> distinct (map slot_of (filter (\<lambda>r. ti_turn r = t) (turn_instances (session s))))"
  let ?rows = "turn_instances (session s)"
  let ?kept = "fst (sync_turn_instances t ?rows instances)"
  let ?left = "snd (sync_turn_instances t ?rows instances)"
  let ?s' = "s\<lparr>session := (session s)\<lparr>turn_instances := ?kept @ map (new_turn_instance t) ?left\<rparr>\<rparr>"
  from h have d: "distinct (map slot_of (filter (\<lambda>r. ti_turn r = t) ?rows))" by simp
  have run: "add_turn_instances accepts instances False s = Inr ((), ?s')"
    using h by (simp add: add_turn_instances_incremental_eq)
  have com: "committed ?s' = committed s" by simp
  have rows': "turn_instances (session ?s') = ?kept @ map (new_turn_instance t) ?left"
    by simp
  have existing: "\<forall>e\<in>set ?rows. ti_turn e = t \<longrightarrow>
           (case find (same_slot e) instances of
              Some c \<Rightarrow> e\<lparr>ti_room := tic_room c\<rparr> \<in> set (turn_instances (session ?s'))
            | None \<Rightarrow> e \<notin> set (turn_instances (session ?s')))"
  proof (intro ballI impI)
    fix e assume e: "e \<in> set ?rows" "ti_turn e = t"
    show "case find (same_slot e) instances of
              Some c \<Rightarrow> e\<lparr>ti_room := tic_room c\<rparr> \<in> set (turn_instances (session ?s'))
            | None \<Rightarrow> e \<notin> set (turn_instances (session ?s'))"
    proof (cases "find (same_slot e) instances")
      case None
      with deleted_row [OF d e(2) None] show ?thesis
        unfolding rows' by simp
    next
      case (Some c)
      with kept_row [OF d e Some] show ?thesis
        unfolding rows' by simp
    qed
  qed
  have inserted: "\<forall>c\<in>set instances.
            (\<forall>e\<in>set ?rows. ti_turn e = t \<longrightarrow> \<not> same_slot e c) \<longrightarrow>
            new_turn_instance t c \<in> set (turn_instances (session ?s'))"
  proof (intro ballI impI)
    fix c assume "c \<in> set instances" "\<forall>e\<in>set ?rows. ti_turn e = t \<longrightarrow> \<not> same_slot e c"
    then have "c \<in> set ?left" by (rule sync_left_unmatched)
    then show "new_turn_instance t c \<in> set (turn_instances (session ?s'))"
      unfolding rows' by simp
  qed
  have others: "filter (\<lambda>r. ti_turn r \<noteq> t) (turn_instances (session ?s')) = filter (\<lambda>r. ti_turn r \<noteq> t) ?rows"
    unfolding rows' by (simp add: sync_other_turns new_turn_instance_def)
  have exact: "distinct (map cand_slot instances) \<longrightarrow>
           filter (\<lambda>r. ti_turn r = t) (turn_instances (session ?s'))
           = List.map_filter (matched instances) (filter (\<lambda>r. ti_turn r = t) ?rows)
             @ map (new_turn_instance t)
                 (filter (\<lambda>c. \<forall>e\<in>set ?rows. ti_turn e = t \<longrightarrow> \<not> same_slot e c) instances)"
  proof
    assume dc: "distinct (map cand_slot instances)"
    have "filter (\<lambda>r. ti_turn r = t) (map (new_turn_instance t) ?left) = map (new_turn_instance t) ?left"
      by (simp add: filter_map comp_def new_turn_instance_def)
    then show "filter (\<lambda>r. ti_turn r = t) (turn_instances (session ?s'))
           = List.map_filter (matched instances) (filter (\<lambda>r. ti_turn r = t) ?rows)
             @ map (new_turn_instance t)
                 (filter (\<lambda>c. \<forall>e\<in>set ?rows. ti_turn e = t \<longrightarrow> \<not> same_slot e c) instances)"
      unfolding rows' by (simp add: sync_kept [OF d] sync_left_exact [OF dc])
  qed
  show "\<exists>s'. add_turn_instances accepts instances False s = Inr ((), s')
      \<and> committed s' = committed s
      \<and> (\<forall>e\<in>set (turn_instances (session s)). ti_turn e = t \<longrightarrow>
           (case find (same_slot e) instances of
              Some c \<Rightarrow> e\<lparr>ti_room := tic_room c\<rparr> \<in> set (turn_instances (session s'))
            | None \<Rightarrow> e \<notin> set (turn_instances (session s'))))
      \<and> (\<forall>c\<in>set instances.
            (\<forall>e\<in>set (turn_instances (session s)). ti_turn e = t \<longrightarrow> \<not> same_slot e c) \<longrightarrow>
            new_turn_instance t c \<in> set (turn_instances (session s')))
      \<and> filter (\<lambda>r. ti_turn r \<noteq> t) (turn_instances (session s'))
          = filter (\<lambda>r. ti_turn r \<noteq> t) (turn_instances (session s))
      \<and> (distinct (map cand_slot instances) \<longrightarrow>
           filter (\<lambda>r. ti_turn r = t) (turn_instances (session s'))
           = List.map_filter (matched instances) (filter (\<lambda>r. ti_turn r = t) (turn_instances (session s)))
             @ map (new_turn_instance t)
                 (filter (\<lambda>c. \<forall>e\<in>set (turn_instances (session s)). ti_turn e = t \<longrightarrow> \<not> same_slot e c)
                    instances))"
    by (rule exI [of _ ?s']) (intro conjI run com existing inserted others exact)
next
  show "add_turn_instances accepts [] False s = Inr ((), s)"
    by (simp add: add_turn_instances_def)
next
  show "add_turn_instances accepts
       [\<lparr>tic_turn = 1, tic_start = 540, tic_end = 660, tic_weekday = 0, tic_room = Some 11\<rparr>,
        \<lparr>tic_turn = 1, tic_start = 840, tic_end = 960, tic_weekday = 4, tic_room = Some 10\<rparr>]
       False
       (Controller (empty_tables\<lparr>turn_instances :=
          [\<lparr>ti_id = Some 1, ti_turn = 1, ti_start = 540, ti_end = 660, ti_room = Some 10, ti_weekday = 0\<rparr>,
           \<lparr>ti_id = Some 2, ti_turn = 1, ti_start = 540, ti_end = 660, ti_room = Some 10, ti_weekday = 2\<rparr>]\<rparr>) False)
     = Inr ((), (Controller (empty_tables\<lparr>turn_instances :=
          [\<lparr>ti_id = Some 1, ti_turn = 1, ti_start = 540, ti_end = 660, ti_room = Some 10, ti_weekday = 0\<rparr>,
           \<lparr>ti_id = Some 2, ti_turn = 1, ti_start = 540, ti_end = 660, ti_room = Some 10, ti_weekday = 2\<rparr>]\<rparr>) False)
         \<lparr>session := empty_tables\<lparr>turn_instances :=
          [\<lparr>ti_id = Some 1, ti_turn = 1, ti_start = 540, ti_end = 660, ti_room = Some 11, ti_weekday = 0\<rparr>,
           \<lparr>ti_id = None, ti_turn = 1, ti_start = 840, ti_end = 960, ti_room = Some 10, ti_weekday = 4\<rparr>]\<rparr>\<rparr>)"
    by (simp add: add_turn_instances_def Controller_def empty_tables_def same_slot_def
        new_turn_instance_def remove_at_def)
qed


theorem add_turn_instances_incremental_witness:
  "\<exists>s'. add_turn_instances schema_constraints
       [\<lparr>tic_turn = 1, tic_start = 540, tic_end = 660, tic_weekday = 0, tic_room = Some 11\<rparr>,
        \<lparr>tic_turn = 1, tic_start = 840, tic_end = 960, tic_weekday = 4, tic_room = Some 10\<rparr>]
       False
       (Controller (empty_tables\<lparr>turn_instances :=
          [\<lparr>ti_id = Some 1, ti_turn = 1, ti_start = 540, ti_end = 660, ti_room = Some 10, ti_weekday = 0\<rparr>,
           \<lparr>ti_id = Some 2, ti_turn = 1, ti_start = 540, ti_end = 660, ti_room = Some 10, ti_weekday = 2\<rparr>,
           \<lparr>ti_id = Some 3, ti_turn = 2, ti_start = 600, ti_end = 720, ti_room = Some 12, ti_weekday = 1\<rparr>]\<rparr>) False)
        = Inr ((), s')
     \<and> turn_instances (committed s') =
          [\<lparr>ti_id = Some 1, ti_turn = 1, ti_start = 540, ti_end = 660, ti_room = Some 10, ti_weekday = 0\<rparr>,
           \<lparr>ti_id = Some 2, ti_turn = 1, ti_start = 540, ti_end = 660, ti_room = Some 10, ti_weekday = 2\<rparr>,
           \<lparr>ti_id = Some 3, ti_turn = 2, ti_start = 600, ti_end = 720, ti_room = Some 12, ti_weekday = 1\<rparr>]
     \<and> \<lparr>ti_id = Some 1, ti_turn = 1, ti_start = 540, ti_end = 660, ti_room = Some 11, ti_weekday = 0\<rparr>
          \<in> set (turn_instances (session s'))
     \<and> \<lparr>ti_id = Some 2, ti_turn = 1, ti_start = 540, ti_end = 660, ti_room = Some 10, ti_weekday = 2\<rparr>
          \<notin> set (turn_instances (session s'))
     \<and> \<lparr>ti_id = None, ti_turn = 1, ti_start = 840, ti_end = 960, ti_room = Some 10, ti_weekday = 4\<rparr>
          \<in> set (turn_instances (session s'))
     \<and> filter (\<lambda>r. ti_turn r \<noteq> 1) (turn_instances (session s'))
          = [\<lparr>ti_id = Some 3, ti_turn = 2, ti_start = 600, ti_end = 720, ti_room = Some 12, ti_weekday = 1\<rparr>]
     \<and> filter (\<lambda>r. ti_turn r = 1) (turn_instances (session s'))
          = [\<lparr>ti_id = Some 1, ti_turn = 1, ti_start = 540, ti_end = 660, ti_room = Some 11, ti_weekday = 0\<rparr>,
             \<lparr>ti_id = None, ti_turn = 1, ti_start = 840, ti_end = 960, ti_room = Some 10, ti_weekday = 4\<rparr>]"
proof -
  let ?mon = "\<lparr>ti_id = Some 1, ti_turn = 1, ti_start = 540, ti_end = 660, ti_room = Some 10, ti_weekday = 0\<rparr>"
  let ?wed = "\<lparr>ti_id = Some 2, ti_turn = 1, ti_start = 540, ti_end = 660, ti_room = Some 10, ti_weekday = 2\<rparr>"
  let ?other = "\<lparr>ti_id = Some 3, ti_turn = 2, ti_start = 600, ti_end = 720, ti_room = Some 12, ti_weekday = 1\<rparr>"
  let ?cmon = "\<lparr>tic_turn = 1, tic_start = 540, tic_end = 660, tic_weekday = 0, tic_room = Some 11\<rparr>"
  let ?cfri = "\<lparr>tic_turn = 1, tic_start = 840, tic_end = 960, tic_weekday = 4, tic_room = Some 10\<rparr>"
  let ?s = "Controller (empty_tables\<lparr>turn_instances := [?mon, ?wed, ?other]\<rparr>) False"
  have rows: "turn_instances (session ?s) = [?mon, ?wed, ?other]"
    by (simp add: Controller_def empty_tables_def)
  have crows: "turn_instances (committed ?s) = [?mon, ?wed, ?other]"
    by (simp add: Controller_def empty_tables_def)
  have hyp: "[?cmon, ?cfri] \<noteq> [] \<and> (\<forall>c\<in>set [?cmon, ?cfri]. tic_turn c = 1)
     \<and> distinct (map slot_of (filter (\<lambda>r. ti_turn r = 1) (turn_instances (session ?s))))"
    by (simp add: rows slot_of_def)
  have dc: "distinct (map cand_slot [?cmon, ?cfri])"
    by (simp add: cand_slot_def)
  from add_turn_instances_incremental [of "[?cmon, ?cfri]" 1 ?s schema_constraints, THEN conjunct1] hyp
  obtain s' where s': "add_turn_instances schema_constraints [?cmon, ?cfri] False ?s = Inr ((), s')"
    and com: "committed s' = committed ?s"
    and ex: "\<forall>e\<in>set (turn_instances (session ?s)). ti_turn e = 1 \<longrightarrow>
           (case find (same_slot e) [?cmon, ?cfri] of
              Some c \<Rightarrow> e\<lparr>ti_room := tic_room c\<rparr> \<in> set (turn_instances (session s'))
            | None \<Rightarrow> e \<notin> set (turn_instances (session s')))"
    and ins: "\<forall>c\<in>set [?cmon, ?cfri].
            (\<forall>e\<in>set (turn_instances (session ?s)). ti_turn e = 1 \<longrightarrow> \<not> same_slot e c) \<longrightarrow>
            new_turn_instance 1 c \<in> set (turn_instances (session s'))"
    and oth: "filter (\<lambda>r. ti_turn r \<noteq> 1) (turn_instances (session s'))
          = filter (\<lambda>r. ti_turn r \<noteq> 1) (turn_instances (session ?s))"
    and exact: "distinct (map cand_slot [?cmon, ?cfri]) \<longrightarrow>
           filter (\<lambda>r. ti_turn r = 1) (turn_instances (session s'))
           = List.map_filter (matched [?cmon, ?cfri]) (filter (\<lambda>r. ti_turn r = 1) (turn_instances (session ?s)))
             @ map (new_turn_instance 1)
                 (filter (\<lambda>c. \<forall>e\<in>set (turn_instances (session ?s)). ti_turn e = 1 \<longrightarrow> \<not> same_slot e c)
                    [?cmon, ?cfri])"
    by blast
  from com crows have c: "turn_instances (committed s') = [?mon, ?wed, ?other]" by simp
  from ex have mon: "\<lparr>ti_id = Some 1, ti_turn = 1, ti_start = 540, ti_end = 660, ti_room = Some 11, ti_weekday = 0\<rparr>
          \<in> set (turn_instances (session s'))"
    and wed: "?wed \<notin> set (turn_instances (session s'))"
    by (simp_all add: rows same_slot_def)
  from ins have fri: "\<lparr>ti_id = None, ti_turn = 1, ti_start = 840, ti_end = 960, ti_room = Some 10, ti_weekday = 4\<rparr>
          \<in> set (turn_instances (session s'))"
    by (simp add: rows same_slot_def new_turn_instance_def)
  from oth have other: "filter (\<lambda>r. ti_turn r \<noteq> 1) (turn_instances (session s')) = [?other]"
    by (simp add: rows)
  from exact dc have all: "filter (\<lambda>r. ti_turn r = 1) (turn_instances (session s'))
          = [\<lparr>ti_id = Some 1, ti_turn = 1, ti_start = 540, ti_end = 660, ti_room = Some 11, ti_weekday = 0\<rparr>,
             \<lparr>ti_id = None, ti_turn = 1, ti_start = 840, ti_end = 960, ti_room = Some 10, ti_weekday = 4\<rparr>]"
    by (simp add: rows same_slot_def new_turn_instance_def matched_def)
  show ?thesis
    by (rule exI [of _ s']) (intro conjI s' c mon wed fri other all)
qed

text \<open>
  C9, as stated, at an empty list of instances, which the crawler passes for a turn whose
  page shows no time slot: the stored Wednesday instance matches no instance passed in,
  and it is still there after the call.
\<close>

theorem add_turn_instances_empty_counterexample:
  "add_turn_instances schema_constraints [] False
     (Controller (empty_tables\<lparr>turn_instances :=
        [\<lparr>ti_id = Some 2, ti_turn = 1, ti_start = 540, ti_end = 660, ti_room = Some 10, ti_weekday = 2\<rparr>]\<rparr>) False)
   = Inr ((), Controller (empty_tables\<lparr>turn_instances :=
        [\<lparr>ti_id = Some 2, ti_turn = 1, ti_start = 540, ti_end = 660, ti_room = Some 10, ti_weekday = 2\<rparr>]\<rparr>) False)"
  by (simp add: add_turn_instances_def)

text \<open>
  The destructive branch on the example gives the same slots and rooms in rows that are
  all new: row 1 is not kept.
\<close>

lemma add_turn_instances_destructive_example:
  "add_turn_instances schema_constraints
       [\<lparr>tic_turn = 1, tic_start = 540, tic_end = 660, tic_weekday = 0, tic_room = Some 11\<rparr>,
        \<lparr>tic_turn = 1, tic_start = 840, tic_end = 960, tic_weekday = 4, tic_room = Some 10\<rparr>]
       True
       (Controller (empty_tables\<lparr>turn_instances :=
          [\<lparr>ti_id = Some 1, ti_turn = 1, ti_start = 540, ti_end = 660, ti_room = Some 10, ti_weekday = 0\<rparr>,
           \<lparr>ti_id = Some 2, ti_turn = 1, ti_start = 540, ti_end = 660, ti_room = Some 10, ti_weekday = 2\<rparr>]\<rparr>) False)
     = Inr ((), Controller (empty_tables\<lparr>turn_instances :=
          [\<lparr>ti_id = None, ti_turn = 1, ti_start = 540, ti_end = 660, ti_room = Some 11, ti_weekday = 0\<rparr>,
           \<lparr>ti_id = None, ti_turn = 1, ti_start = 840, ti_end = 960, ti_room = Some 10, ti_weekday = 4\<rparr>]\<rparr>) False)"
  by (simp add: add_turn_instances_def Controller_def empty_tables_def new_turn_instance_def commit_def
      schema_constraints_def pk_departments_def un_room_def un_class_instance_def un_admission_def
      un_turn_instance_def)

section \<open>Reconciling a candidate twice\<close>












text \<open>
  With the cache, \<open>add_room\<close> probes a dictionary keyed by building names with the
  candidate's building object and never finds the room: the second call inserts again,
  the backend refuses the commit under \<open>un_room\<close>, and the call returns \<open>None\<close>.
\<close>

lemma add_room_cached_twice:
  "add_room schema_constraints
     \<lparr>rc_id = Some 5, rc_name = ''1.1'', rc_type = Some 2, rc_building = 1\<rparr>
     (Controller (empty_tables\<lparr>buildings := [\<lparr>building_id = 1, building_name = ''Ed. II''\<rparr>]\<rparr>) True)
   = (RoomRef 0, Controller (empty_tables\<lparr>buildings := [\<lparr>building_id = 1, building_name = ''Ed. II''\<rparr>],
        rooms := [\<lparr>room_id = Some 5, room_name = ''1.1'', room_type = Some 2, room_building = 1\<rparr>]\<rparr>) True)
   \<and> add_room schema_constraints
     \<lparr>rc_id = Some 5, rc_name = ''1.1'', rc_type = Some 2, rc_building = 1\<rparr>
     (Controller (empty_tables\<lparr>buildings := [\<lparr>building_id = 1, building_name = ''Ed. II''\<rparr>],
        rooms := [\<lparr>room_id = Some 5, room_name = ''1.1'', room_type = Some 2, room_building = 1\<rparr>]\<rparr>) True)
   = (NoRoom, Controller (empty_tables\<lparr>buildings := [\<lparr>building_id = 1, building_name = ''Ed. II''\<rparr>],
        rooms := [\<lparr>room_id = Some 5, room_name = ''1.1'', room_type = Some 2, room_building = 1\<rparr>]\<rparr>) True)"
  by (simp add: add_room_def new_room_def Controller_def empty_tables_def commit_def rollback_def
      rooms_cache_lookup_def load_rooms_def load_courses_def load_departments_def load_institutions_def
      rooms_put_def dict_set_def dict_get_def
      schema_constraints_def pk_departments_def un_room_def un_class_instance_def
      un_admission_def un_turn_instance_def room_unique_key_def)

section \<open>A failure inside a batch\<close>

lemma reconcile_institution_fields:
  "caching (reconcile_institution c s) = caching s \<and> committed (reconcile_institution c s) = committed s
   \<and> reconcile_institution c s = s\<lparr>session := session (reconcile_institution c s)\<rparr>"
  by (simp add: reconcile_institution_def split: option.splits)

lemma fold_reconcile_institution:
  "fold reconcile_institution cs s = s\<lparr>session := session (fold reconcile_institution cs s)\<rparr>"
proof (induction cs arbitrary: s)
  case Nil
  show ?case by simp
next
  case (Cons c cs)
  have "fold reconcile_institution cs (reconcile_institution c s)
      = (reconcile_institution c s)\<lparr>session := session (fold reconcile_institution cs (reconcile_institution c s))\<rparr>"
    by (rule Cons.IH)
  also have "\<dots> = s\<lparr>session := session (fold reconcile_institution cs (reconcile_institution c s))\<rparr>"
    by (subst reconcile_institution_fields [THEN conjunct2, THEN conjunct2]) simp
  finally show ?case by simp
qed

lemma add_institutions_swallows:
  "\<exists>s'. add_institutions accepts cs s = Inr ((), s')"
  "add_institutions_try accepts cs s = Inl (e, s1) \<Longrightarrow>
     add_institutions accepts cs s = Inr ((), s\<lparr>session := committed s\<rparr>)"
proof -
  show "\<exists>s'. add_institutions accepts cs s = Inr ((), s')"
    by (auto simp: add_institutions_def split: sum.splits)
  assume a: "add_institutions_try accepts cs s = Inl (e, s1)"
  then have "s1 = fold reconcile_institution cs s"
    by (auto simp: add_institutions_try_def commit_def split: if_splits)
  then have "rollback s1 = s\<lparr>session := committed s\<rparr>"
    by (subst (asm) fold_reconcile_institution) (simp add: rollback_def)
  with a show "add_institutions accepts cs s = Inr ((), s\<lparr>session := committed s\<rparr>)"
    by (simp add: add_institutions_def)
qed

lemma reconcile_department_fields:
  "reconcile_department c s = s\<lparr>session := session (reconcile_department c s)\<rparr>"
  by (simp add: reconcile_department_def split: option.splits)

lemma fold_reconcile_department:
  "fold reconcile_department cs s = s\<lparr>session := session (fold reconcile_department cs s)\<rparr>"
proof (induction cs arbitrary: s)
  case Nil
  show ?case by simp
next
  case (Cons c cs)
  have "fold reconcile_department cs (reconcile_department c s)
      = (reconcile_department c s)\<lparr>session := session (fold reconcile_department cs (reconcile_department c s))\<rparr>"
    by (rule Cons.IH)
  also have "\<dots> = s\<lparr>session := session (fold reconcile_department cs (reconcile_department c s))\<rparr>"
    by (subst reconcile_department_fields) simp
  finally show ?case by simp
qed

lemma add_departments_swallows:
  "\<exists>s'. add_departments accepts cs s = Inr ((), s')"
  "add_departments_try accepts cs s = Inl (e, s1) \<Longrightarrow>
     add_departments accepts cs s = Inr ((), s\<lparr>session := committed s\<rparr>)"
proof -
  show "\<exists>s'. add_departments accepts cs s = Inr ((), s')"
    by (auto simp: add_departments_def split: sum.splits)
  assume a: "add_departments_try accepts cs s = Inl (e, s1)"
  then have "s1 = fold reconcile_department cs s"
    by (auto simp: add_departments_try_def commit_def split: if_splits)
  then have "rollback s1 = s\<lparr>session := committed s\<rparr>"
    by (subst (asm) fold_reconcile_department) (simp add: rollback_def)
  with a show "add_departments accepts cs s = Inr ((), s\<lparr>session := committed s\<rparr>)"
    by (simp add: add_departments_def)
qed

lemma add_courses_try_append:
  "add_courses_try accepts (pre @ rest) s =
     (case add_courses_try accepts pre s of Inl e \<Rightarrow> Inl e | Inr (u, s1) \<Rightarrow> add_courses_try accepts rest s1)"
proof (induction pre arbitrary: s)
  case Nil
  show ?case by simp
next
  case (Cons c pre)
  show ?case
    by (cases "reconcile_course accepts c s") (auto simp: Cons.IH)
qed

lemma reconcile_course_error:
  assumes "reconcile_course accepts c s = Inl (e, s2)"
  shows "committed s2 = committed s"
proof (cases "first_index (course_key c) (courses (session s))")
  case None
  with assms show ?thesis
    by (auto simp: reconcile_course_def commit_def split: if_splits)
next
  case (Some i)
  with assms show ?thesis
    by (auto simp: reconcile_course_def commit_def Let_def split: if_splits prod.splits)
qed

lemma load_courses_tables:
  "session (load_courses s) = session s \<and> committed (load_courses s) = committed s"
  by (simp add: load_courses_def)

lemma add_courses_failure:
  assumes pre: "add_courses_try accepts pre s = Inr ((), s1)"
    and c: "reconcile_course accepts c s1 = Inl (e, s2)"
  shows "\<exists>s3. add_courses accepts (pre @ c # post) s
            = Inl (Wrapped (''Failed to add courses.'' @ [CHR 0x0A]) e, s3)
          \<and> session s3 = committed s3 \<and> committed s3 = committed s1"
proof -
  let ?s3 = "if caching s2 then load_courses (rollback s2) else rollback s2"
  have com: "committed s2 = committed s1"
    using c by (rule reconcile_course_error)
  have "add_courses_try accepts (pre @ c # post) s = Inl (e, s2)"
    by (simp add: add_courses_try_append pre c)
  then have "add_courses accepts (pre @ c # post) s
      = Inl (Wrapped (''Failed to add courses.'' @ [CHR 0x0A]) e, ?s3)"
    by (simp add: add_courses_def)
  moreover have "session ?s3 = committed ?s3"
    by (simp add: load_courses_tables rollback_def)
  moreover have "committed ?s3 = committed s1"
    by (simp add: load_courses_tables rollback_def com)
  ultimately show ?thesis by blast
qed

text \<open>
  C7, amended. \<open>add_courses\<close> commits candidate by candidate: when the candidates before
  \<open>c\<close> were processed and processing \<open>c\<close> raises \<open>e\<close>, the call raises an exception
  \<open>Failed to add courses.\<close> around \<open>e\<close>, the session is rolled back (it shows the committed
  rows), and the committed rows are those committed for the candidates before \<open>c\<close>.
  \<open>add_institutions\<close> and \<open>add_departments\<close> always return normally; they commit once,
  after the whole batch, and when their \<^verbatim>\<open>try\<close> block raises, the controller is the one
  before the call with its session rolled back: nothing of the batch is stored, and no
  exception reaches the caller.
\<close>

theorem batch_failure:
  "(add_courses_try accepts pre s = Inr ((), s1) \<and> reconcile_course accepts c s1 = Inl (e, s2) \<longrightarrow>
      (\<exists>s3. add_courses accepts (pre @ c # post) s
               = Inl (Wrapped (''Failed to add courses.'' @ [CHR 0x0A]) e, s3)
             \<and> session s3 = committed s3 \<and> committed s3 = committed s1))
   \<and> (\<exists>s'. add_institutions accepts ics s = Inr ((), s'))
   \<and> (add_institutions_try accepts ics s = Inl (ei, si) \<longrightarrow>
        add_institutions accepts ics s = Inr ((), s\<lparr>session := committed s\<rparr>))
   \<and> (\<exists>s'. add_departments accepts dcs s = Inr ((), s'))
   \<and> (add_departments_try accepts dcs s = Inl (ed, sd) \<longrightarrow>
        add_departments accepts dcs s = Inr ((), s\<lparr>session := committed s\<rparr>))"
proof (intro conjI impI)
  assume "add_courses_try accepts pre s = Inr ((), s1) \<and> reconcile_course accepts c s1 = Inl (e, s2)"
  then show "\<exists>s3. add_courses accepts (pre @ c # post) s
               = Inl (Wrapped (''Failed to add courses.'' @ [CHR 0x0A]) e, s3)
             \<and> session s3 = committed s3 \<and> committed s3 = committed s1"
    using add_courses_failure [of accepts pre s s1 c e s2 post] by simp
next
  show "\<exists>s'. add_institutions accepts ics s = Inr ((), s')"
    by (rule add_institutions_swallows(1))
next
  assume "add_institutions_try accepts ics s = Inl (ei, si)"
  then show "add_institutions accepts ics s = Inr ((), s\<lparr>session := committed s\<rparr>)"
    by (rule add_institutions_swallows(2))
next
  show "\<exists>s'. add_departments accepts dcs s = Inr ((), s')"
    by (rule add_departments_swallows(1))
next
  assume "add_departments_try accepts dcs s = Inl (ed, sd)"
  then show "add_departments accepts dcs s = Inr ((), s\<lparr>session := committed s\<rparr>)"
    by (rule add_departments_swallows(2))
qed

theorem batch_failure_witness:
  "(\<exists>s3. add_courses schema_constraints
     [\<lparr>first_year = Some 2012, last_year = Some 2015, cand_id = 2,
       cc_name = Some ''Matematica'', cc_abbreviation = Some ''LM'', cc_degree = None,
       cc_institution = Some 1\<rparr>,
      \<lparr>first_year = Some 2010, last_year = Some 2012, cand_id = 1,
       cc_name = Some ''Engenharia Informatica'', cc_abbreviation = None, cc_degree = None,
       cc_institution = Some 1\<rparr>]
     (Controller (empty_tables\<lparr>courses :=
        [\<lparr>first_year = Some 2010, last_year = Some 2015, course_internal_id = Some 1,
          course_name = Some ''Informatica'', course_abbreviation = Some ''MIEI'',
          course_degree = None, course_institution = Some 1\<rparr>]\<rparr>) False)
     = Inl (Wrapped (''Failed to add courses.'' @ [CHR 0x0A])
              (Exception ''Attempted to change a course name''), s3)
     \<and> session s3 = committed s3
     \<and> courses (committed s3) =
        [\<lparr>first_year = Some 2010, last_year = Some 2015, course_internal_id = Some 1,
          course_name = Some ''Informatica'', course_abbreviation = Some ''MIEI'',
          course_degree = None, course_institution = Some 1\<rparr>,
         \<lparr>first_year = Some 2012, last_year = Some 2015, course_internal_id = Some 2,
          course_name = Some ''Matematica'', course_abbreviation = Some ''LM'',
          course_degree = None, course_institution = Some 1\<rparr>])
   \<and> add_departments schema_constraints
     [\<lparr>first_year = Some 2010, last_year = Some 2012, cand_id = 4, dc_name = Some ''Matematica'',
       dc_institution = Some 1\<rparr>,
      \<lparr>first_year = Some 2010, last_year = Some 2012, cand_id = 4, dc_name = Some ''Matematica'',
       dc_institution = Some 1\<rparr>]
     (Controller empty_tables True)
   = Inr ((), (Controller empty_tables True)\<lparr>session := committed (Controller empty_tables True)\<rparr>)"
proof -
  note ok = schema_constraints_def pk_departments_def un_room_def un_class_instance_def
    un_admission_def un_turn_instance_def
  let ?c1 = "\<lparr>first_year = Some 2012, last_year = Some 2015, cand_id = 2,
       cc_name = Some ''Matematica'', cc_abbreviation = Some ''LM'', cc_degree = None,
       cc_institution = Some 1\<rparr>"
  let ?c2 = "\<lparr>first_year = Some 2010, last_year = Some 2012, cand_id = 1,
       cc_name = Some ''Engenharia Informatica'', cc_abbreviation = None, cc_degree = None,
       cc_institution = Some 1\<rparr>"
  let ?r1 = "\<lparr>first_year = Some 2010, last_year = Some 2015, course_internal_id = Some 1,
          course_name = Some ''Informatica'', course_abbreviation = Some ''MIEI'',
          course_degree = None, course_institution = Some 1\<rparr>"
  let ?r2 = "\<lparr>first_year = Some 2012, last_year = Some 2015, course_internal_id = Some 2,
          course_name = Some ''Matematica'', course_abbreviation = Some ''LM'',
          course_degree = None, course_institution = Some 1\<rparr>"
  let ?s = "Controller (empty_tables\<lparr>courses := [?r1]\<rparr>) False"
  let ?s1 = "Controller (empty_tables\<lparr>courses := [?r1, ?r2]\<rparr>) False"
  let ?e = "Exception ''Attempted to change a course name''"
  let ?d = "\<lparr>first_year = Some 2010, last_year = Some 2012, cand_id = 4, dc_name = Some ''Matematica'',
       dc_institution = Some 1\<rparr>"
  let ?sd = "Controller empty_tables True"
  let ?sp = "?sd\<lparr>session := empty_tables\<lparr>departments := [new_department ?d, new_department ?d]\<rparr>\<rparr>"
  have pre: "add_courses_try schema_constraints [?c1] ?s = Inr ((), ?s1)"
    by (simp add: reconcile_course_def Controller_def empty_tables_def course_key_def
        new_course_def commit_def ok)
  have step: "reconcile_course schema_constraints ?c2 ?s1 = Inl (?e, ?s1)"
    by (simp add: reconcile_course_def Let_def Controller_def empty_tables_def course_key_def)
  have dep: "add_departments_try schema_constraints [?d, ?d] ?sd = Inl (IntegrityError, ?sp)"
    by (simp add: add_departments_try_def reconcile_department_def
      lookup_department_def new_department_def Controller_def empty_tables_def commit_def
      load_rooms_def load_courses_def load_departments_def load_institutions_def ok)
  have rows: "courses (committed ?s1) = [?r1, ?r2]"
    by (simp add: Controller_def empty_tables_def)
  have "\<exists>s3. add_courses schema_constraints ([?c1] @ ?c2 # []) ?s
               = Inl (Wrapped (''Failed to add courses.'' @ [CHR 0x0A]) ?e, s3)
             \<and> session s3 = committed s3 \<and> committed s3 = committed ?s1"
    using batch_failure [of schema_constraints "[?c1]" ?s ?s1 ?c2 ?e ?s1 "[]", THEN conjunct1]
      pre step by (rule mp [OF _ conjI])
  then obtain s3 where s3: "add_courses schema_constraints [?c1, ?c2] ?s
               = Inl (Wrapped (''Failed to add courses.'' @ [CHR 0x0A]) ?e, s3)"
      "session s3 = committed s3" "committed s3 = committed ?s1"
    by auto
  from s3(3) rows have r3: "courses (committed s3) = [?r1, ?r2]" by simp
  have d: "add_departments schema_constraints [?d, ?d] ?sd = Inr ((), ?sd\<lparr>session := committed ?sd\<rparr>)"
    using batch_failure [of schema_constraints _ ?sd _ _ _ _ _ _ _ _ "[?d, ?d]" IntegrityError ?sp,
        THEN conjunct2, THEN conjunct2, THEN conjunct2, THEN conjunct2] dep
    by (rule mp)
  from s3(1,2) r3 d show ?thesis by blast
qed

text \<open>
  C7, as stated, at departments. A controller with the cache over an empty store is given
  the same new department twice in one batch. The cache is not reloaded inside the batch,
  so both candidates become rows; the backend refuses the commit under the primary key,
  and \<open>add_departments\<close> returns normally with the session rolled back: the exception
  raised in the \<^verbatim>\<open>try\<close> block does not reach the caller.
\<close>

theorem add_departments_swallows_counterexample:
  "add_departments_try schema_constraints
     [\<lparr>first_year = Some 2010, last_year = Some 2012, cand_id = 4, dc_name = Some ''Matematica'',
       dc_institution = Some 1\<rparr>,
      \<lparr>first_year = Some 2010, last_year = Some 2012, cand_id = 4, dc_name = Some ''Matematica'',
       dc_institution = Some 1\<rparr>]
     (Controller empty_tables True)
   = Inl (IntegrityError, (Controller empty_tables True)\<lparr>session := empty_tables\<lparr>departments :=
       [\<lparr>first_year = Some 2010, last_year = Some 2012, dept_id = 4, dept_name = Some ''Matematica'',
         dept_institution = Some 1\<rparr>,
        \<lparr>first_year = Some 2010, last_year = Some 2012, dept_id = 4, dept_name = Some ''Matematica'',
         dept_institution = Some 1\<rparr>]\<rparr>\<rparr>)
   \<and> add_departments schema_constraints
     [\<lparr>first_year = Some 2010, last_year = Some 2012, cand_id = 4, dc_name = Some ''Matematica'',
       dc_institution = Some 1\<rparr>,
      \<lparr>first_year = Some 2010, last_year = Some 2012, cand_id = 4, dc_name = Some ''Matematica'',
       dc_institution = Some 1\<rparr>]
     (Controller empty_tables True)
   = Inr ((), Controller empty_tables True)"
  by (simp add: add_departments_def add_departments_try_def reconcile_department_def
      lookup_department_def new_department_def Controller_def empty_tables_def commit_def rollback_def
      load_rooms_def load_courses_def load_departments_def load_institutions_def
      schema_constraints_def pk_departments_def)

end
